theory Spec2Isabelle
  imports Complex_Main "HOL-Library.Log_Nat"
begin

section \<open>EduAttend client script (script.js): a shallow embedding\<close>

text \<open>
  The script runs in a browser. Everything it touches beyond its own code is explicit
  here: the browser's key-value storage, the page location, the alerts it shows, the
  requests it sends and the parts of the page it reads and writes.

  A JavaScript string is modelled as a \<^typ>\<open>string\<close>: the list of its code units, for
  texts whose code units are below 256.
\<close>

subsection \<open>String operations of the language\<close>

definition startsWith :: "string \<Rightarrow> string \<Rightarrow> bool" where
  "startsWith s p = (take (length p) s = p)"

fun includesStr :: "string \<Rightarrow> string \<Rightarrow> bool" where
  "includesStr [] t = (t = [])"
| "includesStr (c # cs) t = (startsWith (c # cs) t \<or> includesStr cs t)"

text \<open>White space and line terminators below code unit 256: TAB, LF, VT, FF, CR, SP, NBSP.\<close>

definition isSpace :: "char \<Rightarrow> bool" where
  "isSpace c = (of_char c \<in> {9, 10, 11, 12, 13, 32, 160 :: nat})"

definition trim :: "string \<Rightarrow> string" where
  "trim s = rev (dropWhile isSpace (rev (dropWhile isSpace s)))"

definition substring :: "string \<Rightarrow> nat \<Rightarrow> nat \<Rightarrow> string" where
  "substring s a b = take (b - a) (drop a s)"

text \<open>A string is truthy when it is not empty; a missing value (null) is falsy.\<close>

definition truthyStr :: "string option \<Rightarrow> bool" where
  "truthyStr v = (case v of None \<Rightarrow> False | Some s \<Rightarrow> s \<noteq> [])"

subsection \<open>The browser state\<close>

record location =
  hostname :: string
  port :: string
  protocol :: string
  pathname :: string

record request =
  url :: string
  httpMethod :: "string option"
  body :: "string option"
  headers :: "(string \<times> string) list"

text \<open>
  \<open>storage\<close> is localStorage, \<open>href\<close> the last value assigned to
  \<open>window.location.href\<close> (None: no navigation asked for), \<open>alerts\<close> the
  messages shown by \<open>alert\<close> and \<open>sent\<close> the requests handed to \<open>fetch\<close>,
  both oldest first. Console output is not part of the model, and a write to the
  storage is taken to succeed.
\<close>

record world =
  storage :: "string \<rightharpoonup> string"
  href :: "string option"
  alerts :: "string list"
  sent :: "request list"

subsection \<open>getBaseUrl\<close>

definition isLocal :: "location \<Rightarrow> bool" where
  "isLocal l = (hostname l = ''localhost'' \<or> hostname l = ''127.0.0.1''
      \<or> startsWith (hostname l) ''192.168.'' \<or> startsWith (hostname l) ''10.''
      \<or> startsWith (hostname l) ''172.'')"

definition isFile :: "location \<Rightarrow> bool" where
  "isFile l = (protocol l = ''file:'')"

definition getBaseUrl :: "(string \<rightharpoonup> string) \<Rightarrow> location \<Rightarrow> string" where
  "getBaseUrl st l =
     (let overrideUrl = st ''eduAttendBackendUrl'' in
      if truthyStr overrideUrl then the overrideUrl
      else if port l = ''5000'' then ''/api''
      else if isLocal l \<or> isFile l then ''http://localhost:5000/api''
      else ''/api'')"

subsection \<open>logout\<close>

definition logout :: "world \<Rightarrow> world" where
  "logout w =
     (let w1 = w\<lparr>storage := (storage w)(''eduAttendToken'' := None)\<rparr>;
          w2 = w1\<lparr>storage := (storage w1)(''eduAttendUser'' := None)\<rparr>
      in w2\<lparr>href := Some ''index.html''\<rparr>)"

subsection \<open>Values of the language\<close>

text \<open>
  The values the script handles are the results of \<open>JSON.parse\<close>. A number is the
  rational a double stands for; an object is the list of its own properties, keys
  distinct, in insertion order. \<open>undefined\<close> is \<open>None\<close> of \<^typ>\<open>'a option\<close>.
\<close>

datatype json =
  JNull | JBool bool | JNum rat | JStr string | JArr "json list" | JObj "(string \<times> json) list"

text \<open>
  What the script uses of the platform and does not define: the JSON codec, the printing
  of a number, the message an engine gives a TypeError (by the name of the property or
  function that could not be used), the locale's date and time formats and
  \<open>encodeURIComponent\<close>. \<open>JSON_parse\<close> returns None where \<open>JSON.parse\<close> throws.
\<close>

record runtime =
  JSON_parse :: "string \<Rightarrow> json option"
  JSON_stringify :: "json \<Rightarrow> string"
  Number_toString :: "rat \<Rightarrow> string"
  TypeError_message :: "string \<Rightarrow> string"
  toLocaleTimeString :: "json option \<Rightarrow> string"
  toLocaleDateString :: "json option \<Rightarrow> string"
  encodeURIComponent :: "string \<Rightarrow> string"

text \<open>
  Reading a property, for the property names the script reads (none of them is inherited
  from a prototype but \<open>length\<close>). A thrown error is its message, on the left.
\<close>

fun getProp :: "runtime \<Rightarrow> json option \<Rightarrow> string \<Rightarrow> string + json option" where
  "getProp rt None p = Inl (TypeError_message rt p)"
| "getProp rt (Some JNull) p = Inl (TypeError_message rt p)"
| "getProp rt (Some (JObj kvs)) p = Inr (map_of kvs p)"
| "getProp rt (Some (JArr xs)) p =
     Inr (if p = ''length'' then Some (JNum (of_nat (length xs))) else None)"
| "getProp rt (Some (JStr s)) p =
     Inr (if p = ''length'' then Some (JNum (of_nat (length s))) else None)"
| "getProp rt (Some (JBool b)) p = Inr None"
| "getProp rt (Some (JNum q)) p = Inr None"

fun truthy :: "json option \<Rightarrow> bool" where
  "truthy None = False"
| "truthy (Some JNull) = False"
| "truthy (Some (JBool b)) = b"
| "truthy (Some (JNum q)) = (q \<noteq> 0)"
| "truthy (Some (JStr s)) = (s \<noteq> [])"
| "truthy (Some (JArr xs)) = True"
| "truthy (Some (JObj kvs)) = True"

definition orElse :: "json option \<Rightarrow> json option \<Rightarrow> json option" where
  "orElse a b = (if truthy a then a else b)"

fun joinWith :: "string \<Rightarrow> string list \<Rightarrow> string" where
  "joinWith sep [] = []"
| "joinWith sep [x] = x"
| "joinWith sep (x # y # ys) = x @ sep @ joinWith sep (y # ys)"

fun toStr :: "runtime \<Rightarrow> json \<Rightarrow> string" where
  "toStr rt JNull = ''null''"
| "toStr rt (JBool b) = (if b then ''true'' else ''false'')"
| "toStr rt (JNum q) = Number_toString rt q"
| "toStr rt (JStr s) = s"
| "toStr rt (JArr xs) = joinWith '','' (map (\<lambda>x. if x = JNull then [] else toStr rt x) xs)"
| "toStr rt (JObj kvs) = ''[object Object]''"

definition toStrV :: "runtime \<Rightarrow> json option \<Rightarrow> string" where
  "toStrV rt v = (case v of None \<Rightarrow> ''undefined'' | Some j \<Rightarrow> toStr rt j)"

text \<open>The decimal numeral of a natural number, as a template literal prints it.\<close>

definition digit :: "nat \<Rightarrow> char" where
  "digit d = ''0123456789'' ! d"

fun showNat :: "nat \<Rightarrow> string" where
  "showNat n = (if n < 10 then [digit n] else showNat (n div 10) @ [digit (n mod 10)])"

text \<open>Assigning a property of an object: the value is replaced in place, a new key is appended.\<close>

fun setProp :: "(string \<times> 'a) list \<Rightarrow> string \<Rightarrow> 'a \<Rightarrow> (string \<times> 'a) list" where
  "setProp [] k v = [(k, v)]"
| "setProp ((k', v') # kvs) k v = (if k' = k then (k, v) # kvs else (k', v') # setProp kvs k v)"

subsection \<open>apiRequest\<close>

record options =
  optMethod :: "string option"
  optBody :: "string option"
  optHeaders :: "(string \<times> string) list"

text \<open>The default of the second parameter, \<open>{}\<close>.\<close>

definition noOptions :: options where
  "noOptions = \<lparr>optMethod = None, optBody = None, optHeaders = []\<rparr>"

text \<open>
  A response as the script reads it: the status line, the three headers it asks for
  (None: the header is absent) and the body. \<open>response.ok\<close> is a status in 200..299.
\<close>

record response =
  status :: nat
  statusText :: string
  hServer :: "string option"
  hBackend :: "string option"
  hContentType :: "string option"
  bodyText :: string

definition ok :: "response \<Rightarrow> bool" where
  "ok r = (200 \<le> status r \<and> status r \<le> 299)"

text \<open>
  The network answers a request with a response, or \<open>fetch\<close> (or the reading of the body)
  rejects with an error, given by its message.
\<close>

type_synonym network = "request \<Rightarrow> string + response"

text \<open>\<open>s.replace(/([^:]\/)\/+/g, "$1")\<close>: leftmost matches, each taken as long as it goes.\<close>

function collapseSlashes :: "string \<Rightarrow> string" where
  "collapseSlashes (c # a # b # rest) =
     (if c \<noteq> CHR '':'' \<and> a = CHR ''/'' \<and> b = CHR ''/''
      then c # CHR ''/'' # collapseSlashes (dropWhile (\<lambda>x. x = CHR ''/'') rest)
      else c # collapseSlashes (a # b # rest))"
| "collapseSlashes [] = []"
| "collapseSlashes [c] = [c]"
| "collapseSlashes [c, a] = [c, a]"
  by pat_completeness auto
termination
proof (relation "measure length")
  fix c a b :: char and rest :: string
  have "length (dropWhile (\<lambda>x. x = CHR ''/'') rest) \<le> length rest"
    by (rule length_dropWhile_le)
  then show "(dropWhile (\<lambda>x. x = CHR ''/'') rest, c # a # b # rest) \<in> measure length"
    by simp
qed simp_all

definition isHtml :: "string \<Rightarrow> bool" where
  "isHtml t = (startsWith (trim t) ''<!DOCTYPE html>'' \<or> startsWith (trim t) ''<html'')"

definition orUnknown :: "string option \<Rightarrow> string \<Rightarrow> string" where
  "orUnknown h d = (if truthyStr h then the h else d)"

definition requestUrl :: "string \<Rightarrow> string \<Rightarrow> string" where
  "requestUrl API_URL endpoint =
     (let cleanEndpoint = (if startsWith endpoint ''/'' then endpoint else ''/'' @ endpoint)
      in collapseSlashes (API_URL @ cleanEndpoint))"

definition requestHeaders :: "(string \<rightharpoonup> string) \<Rightarrow> options \<Rightarrow> (string \<times> string) list" where
  "requestHeaders st opts =
     (let token = st ''eduAttendToken'';
          hs = fold (\<lambda>(k, v) acc. setProp acc k v) (optHeaders opts)
                 [(''Content-Type'', ''application/json'')]
      in if truthyStr token then setProp hs ''Authorization'' (''Bearer '' @ the token) else hs)"

text \<open>The four diagnostics for an HTML page in place of JSON, with the strings of the source.\<close>

definition aliveMessage :: string where
  "aliveMessage = ''The backend is alive but returned an HTML error page. Check backend logs for route matching issues.''"

definition interceptedMessage :: "string option \<Rightarrow> string" where
  "interceptedMessage serverHeader =
     ''The request was intercepted by a different server ('' @ orUnknown serverHeader ''Unknown''
       @ ''). This usually means your deployment's /api route is not correctly pointing to the Node.js backend.''"

definition notReachedMessage :: "string option \<Rightarrow> string" where
  "notReachedMessage serverHeader =
     ''CRITICAL: The backend server was NOT reached. Request was handled by: ''
       @ orUnknown serverHeader ''a static host''
       @ ''. Ensure your deployment configuration routes /api to the Node server.''"

definition respondedMessage :: "string \<Rightarrow> string" where
  "respondedMessage u =
     ''The backend responded with an HTML page for '' @ u
       @ ''. This implies a 404 or a server-side redirect occurred.''"

definition isJsonType :: "string option \<Rightarrow> bool" where
  "isJsonType contentType =
     (truthyStr contentType \<and> includesStr (the contentType) ''application/json'')"

text \<open>The body of the \<open>try\<close> block once the response is there: the data, or the error thrown.\<close>

definition readResponse :: "runtime \<Rightarrow> string \<Rightarrow> response \<Rightarrow> string + json" where
  "readResponse rt u r =
     (let serverHeader = hServer r; backendHeader = hBackend r; contentType = hContentType r;
          txt = bodyText r;
          parsed =
            (if isJsonType contentType then
               (if trim txt \<noteq> [] then
                  (case JSON_parse rt txt of
                     Some d \<Rightarrow> Inr d
                   | None \<Rightarrow>
                       if isHtml txt then
                         Inl (if backendHeader = Some ''EduAttend-Node'' then aliveMessage
                              else interceptedMessage serverHeader)
                       else Inl (''Invalid JSON from server: '' @ substring txt 0 30 @ ''...''))
                else Inr (JObj [(''message'', JStr ''Success (No data returned)'')]))
             else
               (let d0 = (if txt \<noteq> [] then [(''message'', JStr txt)] else []) in
                if isHtml txt then
                  Inr (JObj (setProp d0 ''message'' (JStr
                    (if \<not> truthyStr backendHeader then notReachedMessage serverHeader
                     else respondedMessage u))))
                else Inr (JObj d0)))
      in case parsed of
           Inl e \<Rightarrow> Inl e
         | Inr d \<Rightarrow>
             if \<not> ok r then
               (case getProp rt (Some d) ''message'' of
                  Inl e \<Rightarrow> Inl e
                | Inr m \<Rightarrow>
                    (case getProp rt (Some d) ''error'' of
                       Inl e \<Rightarrow> Inl e
                     | Inr er \<Rightarrow>
                         Inl (toStrV rt (orElse (orElse m er)
                               (Some (JStr (''Error '' @ showNat (status r) @ '': '' @ statusText r)))))))
             else Inr d)"

text \<open>The arguments of \<open>fetch\<close>: the URL, and the options with the headers put in.\<close>

definition buildRequest :: "string \<Rightarrow> world \<Rightarrow> string \<Rightarrow> options \<Rightarrow> request" where
  "buildRequest API_URL w endpoint opts =
     \<lparr>url = requestUrl API_URL endpoint, httpMethod = optMethod opts, body = optBody opts,
      headers = requestHeaders (storage w) opts\<rparr>"

text \<open>
  The whole function: the request is built and sent, and the \<open>catch\<close> block rewrites the
  message \<open>Failed to fetch\<close> and rethrows every other error as it is.
\<close>

definition apiRequest ::
  "runtime \<Rightarrow> network \<Rightarrow> string \<Rightarrow> world \<Rightarrow> string \<Rightarrow> options \<Rightarrow> (string + json) \<times> world" where
  "apiRequest rt net API_URL w endpoint opts =
     (let u = requestUrl API_URL endpoint;
          req = buildRequest API_URL w endpoint opts;
          w1 = w\<lparr>sent := sent w @ [req]\<rparr>;
          tried = (case net req of Inl e \<Rightarrow> Inl e | Inr r \<Rightarrow> readResponse rt u r)
      in case tried of
           Inl e \<Rightarrow>
             (Inl (if e = ''Failed to fetch''
                   then ''Could not connect to the backend server at '' @ u else e), w1)
         | Inr d \<Rightarrow> (Inr d, w1))"

subsection \<open>The login forms\<close>

text \<open>
  What the submit handlers use of the login page: the value of the identifier field
  (\<open>facultyId\<close> or \<open>studentEmail\<close>), the value of the password field and the form's
  \<open>.login-button\<close>. None stands for an element the page does not have.
\<close>

record button =
  disabled :: bool
  innerHTML :: string

record login_page =
  idField :: "string option"
  passwordInput :: "string option"
  loginButton :: "button option"

text \<open>
  The two handlers are the same code up to five constants: the role, the button's busy
  label, the refusal message, the dashboard and the button's idle label. The result is
  on the left when the handler throws outside its \<open>try\<close> block (a missing element),
  which happens before any effect.
\<close>

definition loginOptions :: "runtime \<Rightarrow> string \<Rightarrow> string \<Rightarrow> string \<Rightarrow> options" where
  "loginOptions rt username password role =
     \<lparr>optMethod = Some ''POST'',
      optBody = Some (JSON_stringify rt (JObj
        [(''username'', JStr username), (''password'', JStr password), (''role'', JStr role)])),
      optHeaders = []\<rparr>"

definition loginSubmit ::
  "string \<Rightarrow> string \<Rightarrow> string \<Rightarrow> string \<Rightarrow> string \<Rightarrow>
   runtime \<Rightarrow> network \<Rightarrow> string \<Rightarrow> login_page \<Rightarrow> world \<Rightarrow> string + (login_page \<times> world)" where
  "loginSubmit role busy refusal dashboard idle rt net API_URL pg w =
     (case idField pg of
        None \<Rightarrow> Inl (TypeError_message rt ''value'')
      | Some username \<Rightarrow>
     (case passwordInput pg of
        None \<Rightarrow> Inl (TypeError_message rt ''value'')
      | Some password \<Rightarrow>
     (case loginButton pg of
        None \<Rightarrow> Inl (TypeError_message rt ''disabled'')
      | Some btn \<Rightarrow>
          (let btn1 = btn\<lparr>disabled := True, innerHTML := busy\<rparr>;
               (r, w1) = apiRequest rt net API_URL w ''/auth/login''
                          (loginOptions rt username password role);
               checked =
                 (case r of
                    Inl e \<Rightarrow> Inl e
                  | Inr data \<Rightarrow>
                      (case getProp rt (Some data) ''role'' of
                         Inl e \<Rightarrow> Inl e
                       | Inr v \<Rightarrow>
                           if v \<noteq> Some (JStr role) then Inl refusal
                           else (case getProp rt (Some data) ''token'' of
                                   Inl e \<Rightarrow> Inl e
                                 | Inr t \<Rightarrow> Inr (t, data))))
           in case checked of
                Inr (t, data) \<Rightarrow>
                  Inr (pg\<lparr>loginButton := Some btn1\<rparr>,
                       w1\<lparr>storage := (storage w1)
                              (''eduAttendToken'' \<mapsto> toStrV rt t,
                               ''eduAttendUser'' \<mapsto> JSON_stringify rt data),
                          href := Some dashboard\<rparr>)
              | Inl e \<Rightarrow>
                  Inr (pg\<lparr>loginButton := Some (btn1\<lparr>disabled := False, innerHTML := idle\<rparr>)\<rparr>,
                       w1\<lparr>alerts := alerts w1 @ [e]\<rparr>)))))"

definition facultySubmit ::
  "runtime \<Rightarrow> network \<Rightarrow> string \<Rightarrow> login_page \<Rightarrow> world \<Rightarrow> string + (login_page \<times> world)" where
  "facultySubmit =
     loginSubmit ''faculty''
       ''<i class=\"fa-solid fa-spinner fa-spin\"></i> Authenticating...''
       ''This portal is for faculty only.''
       ''dashboard.html''
       ''Sign In <i class=\"fa-solid fa-arrow-right\"></i>''"

definition studentSubmit ::
  "runtime \<Rightarrow> network \<Rightarrow> string \<Rightarrow> login_page \<Rightarrow> world \<Rightarrow> string + (login_page \<times> world)" where
  "studentSubmit =
     loginSubmit ''student''
       ''<i class=\"fa-solid fa-spinner fa-spin\"></i> Checking records...''
       ''This portal is for students only.''
       ''student-dashboard.html''
       ''Login <i class=\"fa-solid fa-arrow-right\"></i>''"

subsection \<open>markAttendance\<close>

text \<open>
  An element is its list of class names. The button that was clicked is given with the
  descendants of its parent element, in document order, and its own place among them;
  a button that has no parent element is given alone.
\<close>

record element =
  classList :: "string list"

datatype clicked = InRow "element list" nat | Detached element

definition removeClass :: "string \<Rightarrow> element \<Rightarrow> element" where
  "removeClass c e = e\<lparr>classList := removeAll c (classList e)\<rparr>"

definition addClass :: "string \<Rightarrow> element \<Rightarrow> element" where
  "addClass c e = (if c \<in> set (classList e) then e else e\<lparr>classList := classList e @ [c]\<rparr>)"

definition markOptions :: "runtime \<Rightarrow> string \<Rightarrow> string \<Rightarrow> options" where
  "markOptions rt studentId stat =
     \<lparr>optMethod = Some ''POST'',
      optBody = Some (JSON_stringify rt (JObj
        [(''studentId'', JStr studentId), (''status'', JStr stat),
         (''subject'', JStr ''CS101-A'')])),
      optHeaders = []\<rparr>"

definition markAttendance ::
  "runtime \<Rightarrow> network \<Rightarrow> string \<Rightarrow> string \<Rightarrow> string \<Rightarrow> clicked \<Rightarrow> world \<Rightarrow> clicked \<times> world" where
  "markAttendance rt net API_URL studentId stat btn w =
     (let (r, w1) = apiRequest rt net API_URL w ''/attendance/mark''
                      (markOptions rt studentId stat);
          outcome = (case r of
                    Inl e \<Rightarrow> Inl e
                  | Inr d \<Rightarrow>
                      (case btn of
                         Detached b \<Rightarrow> Inl (TypeError_message rt ''querySelectorAll'')
                       | InRow es i \<Rightarrow>
                           let es1 = map (\<lambda>b. if ''action-btn'' \<in> set (classList b)
                                                then removeClass ''active'' b else b) es
                           in Inr (InRow (es1[i := addClass ''active'' (es1 ! i)]) i)))
      in case outcome of
           Inr btn1 \<Rightarrow> (btn1, w1)
         | Inl e \<Rightarrow> (btn, w1\<lparr>alerts := alerts w1 @ [''Failed to mark attendance: '' @ e]\<rparr>))"

subsection \<open>The DOMContentLoaded handler\<close>

text \<open>
  The handler first registers the listeners of the password toggle and of the two login
  forms, which has no effect of its own (the submit handlers are modelled above), and
  then initialises the page it is on. What it uses of a dashboard page, each None when
  the page has no such element: the text of \<open>.main-content header h1\<close>, of
  \<open>.main-content header p\<close>, of \<open>.hide-mobile p\<close> and of \<open>.hide-mobile p:last-child\<close>,
  and the source of \<open>.user-avatar\<close>, taken to be five different elements.
\<close>

record dashboard_page =
  welcomeText :: "string option"
  welcomeSubtext :: "string option"
  userProfileName :: "string option"
  userProfileId :: "string option"
  userAvatar :: "string option"

text \<open>The asynchronous loaders the handler calls; each is a function of its own.\<close>

datatype loader = LoadDashboardStats | LoadStudentAttendance | LoadStudentsForMarking

text \<open>
  \<open>JSON.parse(localStorage.getItem('eduAttendUser'))\<close>: a missing key gives null, which
  is parsed as the text \<open>null\<close>. None: the parse throws.
\<close>

definition storedUser :: "runtime \<Rightarrow> (string \<rightharpoonup> string) \<Rightarrow> json option" where
  "storedUser rt st =
     JSON_parse rt (case st ''eduAttendUser'' of None \<Rightarrow> ''null'' | Some s \<Rightarrow> s)"

text \<open>Assigning a value to \<open>textContent\<close>: undefined and null give the empty text.\<close>

definition asTextContent :: "runtime \<Rightarrow> json option \<Rightarrow> string" where
  "asTextContent rt v = (case v of None \<Rightarrow> [] | Some JNull \<Rightarrow> [] | Some j \<Rightarrow> toStr rt j)"

text \<open>Writing to an element that may be missing: \<open>if (el) el.textContent = s\<close>.\<close>

definition setIfPresent :: "string option \<Rightarrow> string \<Rightarrow> string option" where
  "setIfPresent el s = (case el of None \<Rightarrow> None | Some old \<Rightarrow> Some s)"

text \<open>
  The state of the handler: the page, the browser and the loaders called so far. A block
  returns the state and whether it has executed \<open>return\<close>, or the error it throws.
\<close>

type_synonym loading = "dashboard_page \<times> world \<times> loader list"

definition facultyDashboardInit :: "runtime \<Rightarrow> loading \<Rightarrow> string + (bool \<times> loading)" where
  "facultyDashboardInit rt s =
     (case s of (pg, w, started) \<Rightarrow>
      (case storedUser rt (storage w) of
         None \<Rightarrow> Inl ''SyntaxError''
       | Some user \<Rightarrow>
           if \<not> truthy (Some user) then Inr (True, pg, w\<lparr>href := Some ''faculty-login.html''\<rparr>, started)
           else
             (case getProp rt (Some user) ''role'' of
                Inl e \<Rightarrow> Inl e
              | Inr role \<Rightarrow>
                  if role \<noteq> Some (JStr ''faculty'')
                  then Inr (True, pg, w\<lparr>href := Some ''faculty-login.html''\<rparr>, started)
                  else
                    (case getProp rt (Some user) ''name'' of
                       Inl e \<Rightarrow> Inl e
                     | Inr name \<Rightarrow>
                    (case getProp rt (Some user) ''username'' of
                       Inl e \<Rightarrow> Inl e
                     | Inr username \<Rightarrow>
                         Inr (False,
                              pg\<lparr>welcomeText := setIfPresent (welcomeText pg)
                                    (''Welcome, '' @ toStrV rt (orElse name username))\<rparr>,
                              w, started @ [LoadDashboardStats]))))))"

definition studentDashboardInit :: "runtime \<Rightarrow> loading \<Rightarrow> string + (bool \<times> loading)" where
  "studentDashboardInit rt s =
     (case s of (pg, w, started) \<Rightarrow>
      (case storedUser rt (storage w) of
         None \<Rightarrow> Inl ''SyntaxError''
       | Some user \<Rightarrow>
           if \<not> truthy (Some user) then Inr (True, pg, w\<lparr>href := Some ''student-login.html''\<rparr>, started)
           else
             (case getProp rt (Some user) ''role'' of
                Inl e \<Rightarrow> Inl e
              | Inr role \<Rightarrow>
                  if role \<noteq> Some (JStr ''student'')
                  then Inr (True, pg, w\<lparr>href := Some ''student-login.html''\<rparr>, started)
                  else
                    (case getProp rt (Some user) ''name'' of
                       Inl e \<Rightarrow> Inl e
                     | Inr name \<Rightarrow>
                    (case getProp rt (Some user) ''username'' of
                       Inl e \<Rightarrow> Inl e
                     | Inr username \<Rightarrow>
                         Inr (False,
                              pg\<lparr>welcomeText := setIfPresent (welcomeText pg) ''Student Dashboard'',
                                 welcomeSubtext := setIfPresent (welcomeSubtext pg)
                                    (''Welcome back, '' @ toStrV rt (orElse name username) @ ''!''),
                                 userProfileName := setIfPresent (userProfileName pg)
                                    (asTextContent rt (orElse name username)),
                                 userProfileId := setIfPresent (userProfileId pg)
                                    (''ID: '' @ toStrV rt (orElse username (Some (JStr ''N/A'')))),
                                 userAvatar := setIfPresent (userAvatar pg)
                                    (''https://ui-avatars.com/api/?name=''
                                      @ encodeURIComponent rt (toStrV rt (orElse name username))
                                      @ ''&background=0284c7&color=fff'')\<rparr>,
                              w, started @ [LoadStudentAttendance]))))))"

text \<open>
  The three page blocks in the order of the source, each behind its test on the path;
  a block that returns ends the handler.
\<close>

definition domContentLoaded ::
  "runtime \<Rightarrow> location \<Rightarrow> dashboard_page \<Rightarrow> world \<Rightarrow> string + loading" where
  "domContentLoaded rt l pg w =
     (let s0 = (pg, w, []);
          afterFaculty =
            (if includesStr (pathname l) ''dashboard.html'' then facultyDashboardInit rt s0
             else Inr (False, s0))
      in case afterFaculty of
           Inl e \<Rightarrow> Inl e
         | Inr (returned1, s1) \<Rightarrow>
             if returned1 then Inr s1
             else
               (let afterStudent =
                      (if includesStr (pathname l) ''student-dashboard.html''
                       then studentDashboardInit rt s1 else Inr (False, s1))
                in case afterStudent of
                     Inl e \<Rightarrow> Inl e
                   | Inr (returned2, s2) \<Rightarrow>
                       if returned2 then Inr s2
                       else if includesStr (pathname l) ''attendance.html''
                       then (case s2 of (pg2, w2, started2) \<Rightarrow>
                               Inr (pg2, w2, started2 @ [LoadStudentsForMarking]))
                       else Inr s2))"

subsection \<open>Numbers\<close>

text \<open>
  A number of the language is a double, modelled as the rational it stands for. The
  quotient and the product of two doubles are the exact results rounded to the nearest
  double, ties to the even significand (53 bits). \<open>toDouble\<close> is that rounding for the
  normal range of the format; the numbers computed here lie between \<open>2^-32\<close> and \<open>100\<close>,
  or are zero.
\<close>

definition pow2 :: "int \<Rightarrow> rat" where
  "pow2 k = (if 0 \<le> k then 2 ^ nat k else 1 / 2 ^ nat (- k))"

text \<open>
  The exponent \<open>e\<close> of a positive rational, \<open>2^e \<le> x < 2^(e+1)\<close>, from the numbers of
  binary digits of its numerator and denominator.
\<close>

definition exponentOf :: "rat \<Rightarrow> int" where
  "exponentOf x =
     (let (a, b) = quotient_of x;
          k = bitlen a - bitlen b
      in if pow2 k \<le> x then k else k - 1)"

definition roundHalfEven :: "rat \<Rightarrow> int" where
  "roundHalfEven x =
     (let f = \<lfloor>x\<rfloor>; d = x - of_int f
      in if d < 1 / 2 then f else if 1 / 2 < d then f + 1 else if even f then f else f + 1)"

definition toDouble :: "rat \<Rightarrow> rat" where
  "toDouble x =
     (if x = 0 then 0
      else (let e = exponentOf \<bar>x\<bar> - 52
            in sgn x * of_int (roundHalfEven (\<bar>x\<bar> / pow2 e)) * pow2 e))"

definition ddiv :: "rat \<Rightarrow> rat \<Rightarrow> rat" where
  "ddiv a b = toDouble (a / b)"

definition dmul :: "rat \<Rightarrow> rat \<Rightarrow> rat" where
  "dmul a b = toDouble (a * b)"

text \<open>\<open>Math.round\<close>: the nearest integer, a tie going up.\<close>

definition mathRound :: "rat \<Rightarrow> int" where
  "mathRound x = \<lfloor>x + 1 / 2\<rfloor>"

definition showInt :: "int \<Rightarrow> string" where
  "showInt i = (if i < 0 then ''-'' @ showNat (nat (- i)) else showNat (nat i))"

subsection \<open>Text helpers of the templates\<close>

text \<open>A line break of a template literal followed by its indentation.\<close>

definition nl :: "nat \<Rightarrow> string" where
  "nl n = CHR 0x0A # replicate n CHR '' ''"

definition lowerChar :: "char \<Rightarrow> char" where
  "lowerChar c =
     (let n = (of_char c :: nat)
      in if (65 \<le> n \<and> n \<le> 90) \<or> (192 \<le> n \<and> n \<le> 222 \<and> n \<noteq> 215) then char_of (n + 32) else c)"

definition toLowerCase :: "string \<Rightarrow> string" where
  "toLowerCase s = map lowerChar s"

subsection \<open>loadStudentAttendance\<close>

text \<open>
  What the loader uses of the student dashboard: the elements
  \<open>.stat-card div:first-child\<close>, each with its background style and its text; the custom
  property \<open>--attendance-pct\<close> of the document element (None: not set); and the inner
  HTML of \<open>.performance-list\<close> (None: no such element). The elements are taken to be
  different and not nested in one another.
\<close>

record stat_card =
  background :: string
  cardText :: string

record student_page =
  statCards :: "stat_card list"
  attendancePct :: "string option"
  performanceList :: "string option"

definition isPresentRecord :: "runtime \<Rightarrow> json \<Rightarrow> bool" where
  "isPresentRecord rt a = (getProp rt (Some a) ''status'' = Inr (Some (JStr ''Present'')))"

text \<open>
  The four numbers computed from the records of the history. The callback of \<open>filter\<close>
  reads the status of every record, which throws on a null record.
\<close>

definition attendanceNumbers :: "runtime \<Rightarrow> json list \<Rightarrow> string + (nat \<times> nat \<times> nat \<times> int)" where
  "attendanceNumbers rt h =
     (if JNull \<in> set h then Inl (TypeError_message rt ''status'')
      else
        (let totalClasses = length h;
             presentCount = length (filter (isPresentRecord rt) h);
             missCount = totalClasses - presentCount;
             percentage =
               (if totalClasses > 0
                then mathRound (dmul (ddiv (of_nat presentCount) (of_nat totalClasses)) 100)
                else 0)
         in Inr (totalClasses, presentCount, missCount, percentage)))"

definition updateStats :: "student_page \<Rightarrow> nat \<times> nat \<times> nat \<times> int \<Rightarrow> student_page" where
  "updateStats pg numbers =
     (case numbers of (totalClasses, presentCount, missCount, percentage) \<Rightarrow>
      (let stats = statCards pg in
       if length stats \<ge> 4 then
         pg\<lparr>statCards :=
              stats[0 := (stats ! 0)\<lparr>background :=
                            ''conic-gradient(var(--primary-blue) '' @ showInt percentage
                              @ ''%, #f1f5f9 0)''\<rparr>,
                    1 := (stats ! 1)\<lparr>cardText := showNat totalClasses\<rparr>,
                    2 := (stats ! 2)\<lparr>cardText := showNat presentCount\<rparr>,
                    3 := (stats ! 3)\<lparr>cardText := showNat missCount\<rparr>],
            attendancePct := Some ([CHR 0x27] @ showInt percentage @ ''%'' @ [CHR 0x27])\<rparr>
       else pg))"

text \<open>One entry of the log; \<open>record.status.toLowerCase()\<close> throws unless the status is a string.\<close>

definition courseItem :: "runtime \<Rightarrow> json \<Rightarrow> string + string" where
  "courseItem rt record =
     (case getProp rt (Some record) ''subject'' of
        Inl e \<Rightarrow> Inl e
      | Inr subject \<Rightarrow>
     (case getProp rt (Some record) ''date'' of
        Inl e \<Rightarrow> Inl e
      | Inr date \<Rightarrow>
     (case getProp rt (Some record) ''status'' of
        Inl e \<Rightarrow> Inl e
      | Inr (Some (JStr stat)) \<Rightarrow>
          Inr (nl 24 @ ''<div class=\"course-item\">''
             @ nl 28 @ ''<div class=\"course-name\">'' @ toStrV rt subject @ ''</div>''
             @ nl 28 @ ''<div style=\"color: #64748b; font-size: 0.85rem;\">''
                     @ toLocaleDateString rt date @ ''</div>''
             @ nl 28 @ ''<div style=\"font-weight: 600;\" class=\"status-'' @ toLowerCase stat
                     @ ''\">'' @ stat @ ''</div>''
             @ nl 24 @ ''</div>''
             @ nl 20)
      | Inr other \<Rightarrow> Inl (TypeError_message rt ''toLowerCase''))))"

fun courseItems :: "runtime \<Rightarrow> json list \<Rightarrow> string \<Rightarrow> string + string" where
  "courseItems rt [] html = Inr html"
| "courseItems rt (record # rs) html =
     (case courseItem rt record of
        Inl e \<Rightarrow> Inl e
      | Inr item \<Rightarrow> courseItems rt rs (html @ item))"

definition attendanceLog :: "runtime \<Rightarrow> json list \<Rightarrow> string + string" where
  "attendanceLog rt h =
     (let html = ''<h3 style=\"margin-bottom: 1.5rem; color: #1e293b;\">Recent Attendance Log</h3>''
      in if length h = 0
         then Inr (html @ ''<p style=\"color: #64748b;\">No attendance records found.</p>'')
         else courseItems rt (take 10 h) html)"

text \<open>
  The loader. Every error is caught and only logged, so the page stays as far as the
  loader got. A history that is not an array fails at \<open>history.filter\<close> (or at
  \<open>history.length\<close> when it is null). The list of subjects that the source computes is
  not used by it.
\<close>

definition loadStudentAttendance ::
  "runtime \<Rightarrow> network \<Rightarrow> string \<Rightarrow> student_page \<Rightarrow> world \<Rightarrow> student_page \<times> world" where
  "loadStudentAttendance rt net API_URL pg w =
     (let (r, w1) = apiRequest rt net API_URL w ''/attendance/my-history'' noOptions
      in case r of
           Inl e \<Rightarrow> (pg, w1)
         | Inr (JArr h) \<Rightarrow>
             (case attendanceNumbers rt h of
                Inl e \<Rightarrow> (pg, w1)
              | Inr numbers \<Rightarrow>
                  (let pg1 = updateStats pg numbers
                   in case performanceList pg1 of
                        None \<Rightarrow> (pg1, w1)
                      | Some old \<Rightarrow>
                          (case attendanceLog rt h of
                             Inl e \<Rightarrow> (pg1, w1)
                           | Inr html \<Rightarrow> (pg1\<lparr>performanceList := Some html\<rparr>, w1))))
         | Inr other \<Rightarrow> (pg, w1))"

subsection \<open>loadDashboardStats\<close>

text \<open>
  What the loader uses of the faculty dashboard: the texts of the \<open>.stat-card h3\<close>
  elements, and the \<open>table tbody\<close> (None: no such element), given by the inner HTML last
  assigned to it and the rows appended since, each row by the HTML assigned to it.
\<close>

record table_body =
  bodyHtml :: string
  appended :: "string list"

record faculty_page =
  statHeadings :: "string list"
  tableBody :: "table_body option"

text \<open>\<open>record.student.name || record.student.username\<close>\<close>

definition studentDisplay :: "runtime \<Rightarrow> json \<Rightarrow> string + json option" where
  "studentDisplay rt record =
     (case getProp rt (Some record) ''student'' of
        Inl e \<Rightarrow> Inl e
      | Inr student \<Rightarrow>
     (case getProp rt student ''name'' of
        Inl e \<Rightarrow> Inl e
      | Inr name \<Rightarrow>
     (case getProp rt student ''username'' of
        Inl e \<Rightarrow> Inl e
      | Inr username \<Rightarrow> Inr (orElse name username))))"

definition tableRow :: "runtime \<Rightarrow> json \<Rightarrow> string + string" where
  "tableRow rt record =
     (case getProp rt (Some record) ''created_at'' of
        Inl e \<Rightarrow> Inl e
      | Inr created \<Rightarrow>
     (case studentDisplay rt record of
        Inl e \<Rightarrow> Inl e
      | Inr display \<Rightarrow>
     (case getProp rt (Some record) ''subject'' of
        Inl e \<Rightarrow> Inl e
      | Inr subject \<Rightarrow>
     (case getProp rt (Some record) ''status'' of
        Inl e \<Rightarrow> Inl e
      | Inr (Some (JStr stat)) \<Rightarrow>
          Inr (nl 24 @ ''<td style=\"display: flex; align-items: center; gap: 0.75rem;\">''
             @ nl 28 @ ''<img src=\"https://ui-avatars.com/api/?name=''
                     @ encodeURIComponent rt (toStrV rt display)
                     @ ''&background=f1f5f9&color=6366f1\" style=\"width: 32px; border-radius: 8px;\">''
             @ nl 28 @ toStrV rt display
             @ nl 24 @ ''</td>''
             @ nl 24 @ ''<td>'' @ toStrV rt subject @ ''</td>''
             @ nl 24 @ ''<td>'' @ toLocaleTimeString rt created @ ''</td>''
             @ nl 24 @ ''<td><span class=\"status-badge '' @ toLowerCase stat @ ''\">'' @ stat
                     @ ''</span></td>''
             @ nl 20)
      | Inr other \<Rightarrow> Inl (TypeError_message rt ''toLowerCase'')))))"

text \<open>The rows appended by \<open>forEach\<close>, up to the first record that throws.\<close>

fun appendRows :: "runtime \<Rightarrow> json list \<Rightarrow> string list" where
  "appendRows rt [] = []"
| "appendRows rt (record # rs) =
     (case tableRow rt record of
        Inl e \<Rightarrow> []
      | Inr row \<Rightarrow> row # appendRows rt rs)"

text \<open>
  The table once the history is there. \<open>history.length\<close> throws on null; a history that
  is not an array and whose length is not 0 has no \<open>slice\<close> or no \<open>forEach\<close>, which
  throws after the table has been emptied.
\<close>

definition fillTable :: "runtime \<Rightarrow> json \<Rightarrow> table_body" where
  "fillTable rt history =
     (case getProp rt (Some history) ''length'' of
        Inl e \<Rightarrow> \<lparr>bodyHtml = [], appended = []\<rparr>
      | Inr n \<Rightarrow>
          if n = Some (JNum 0)
          then \<lparr>bodyHtml = ''<tr><td colspan=\"4\" style=\"text-align: center;\">No recent attendance recorded.</td></tr>'',
                appended = []\<rparr>
          else (case history of
                  JArr h \<Rightarrow> \<lparr>bodyHtml = [], appended = appendRows rt (take 5 h)\<rparr>
                | other \<Rightarrow> \<lparr>bodyHtml = [], appended = []\<rparr>))"

text \<open>
  The loader. Every error is caught and only logged. The number of students is read
  only when there is a heading to show it, and the history only once that is done.
\<close>

definition loadDashboardStats ::
  "runtime \<Rightarrow> network \<Rightarrow> string \<Rightarrow> faculty_page \<Rightarrow> world \<Rightarrow> faculty_page \<times> world" where
  "loadDashboardStats rt net API_URL pg w =
     (let (r1, w1) = apiRequest rt net API_URL w ''/users/students'' noOptions
      in case r1 of
           Inl e \<Rightarrow> (pg, w1)
         | Inr students \<Rightarrow>
             (let counted =
                    (if length (statHeadings pg) \<ge> 1 then
                       (case getProp rt (Some students) ''length'' of
                          Inl e \<Rightarrow> Inl e
                        | Inr n \<Rightarrow>
                            Inr (pg\<lparr>statHeadings := (statHeadings pg)[0 := asTextContent rt n]\<rparr>))
                     else Inr pg)
              in case counted of
                   Inl e \<Rightarrow> (pg, w1)
                 | Inr pg1 \<Rightarrow>
                     (let (r2, w2) = apiRequest rt net API_URL w1 ''/attendance/all'' noOptions
                      in case r2 of
                           Inl e \<Rightarrow> (pg1, w2)
                         | Inr history \<Rightarrow>
                             (case tableBody pg1 of
                                None \<Rightarrow> (pg1, w2)
                              | Some tb \<Rightarrow>
                                  (pg1\<lparr>tableBody := Some (fillTable rt history)\<rparr>, w2)))))"

subsection \<open>A runtime for examples\<close>

text \<open>
  To run the model on a concrete input the platform's functions must be given. This
  runtime knows \<open>JSON.parse\<close> and \<open>JSON.stringify\<close> on the listed texts and values only
  (every other text fails to parse); it prints a number as the numeral of its integer
  part, which is right for the array lengths met here, and leaves a URI component as
  it is, which is right for unreserved characters.
\<close>

definition exampleRuntime :: "(string \<times> json) list \<Rightarrow> (json \<times> string) list \<Rightarrow> runtime" where
  "exampleRuntime parses prints =
     \<lparr>JSON_parse = map_of parses,
      JSON_stringify = (\<lambda>j. case map_of prints j of Some s \<Rightarrow> s | None \<Rightarrow> []),
      Number_toString = (\<lambda>q. showNat (nat \<lfloor>q\<rfloor>)),
      TypeError_message = (\<lambda>p. ''Cannot read properties (reading '' @ p @ '')''),
      toLocaleTimeString = (\<lambda>d. ''09:00 AM''),
      toLocaleDateString = (\<lambda>d. ''1/1/2025''),
      encodeURIComponent = (\<lambda>c. c)\<rparr>"

subsection \<open>Example inputs\<close>

definition emptyWorld :: world where
  "emptyWorld = \<lparr>storage = Map.empty, href = None, alerts = [], sent = []\<rparr>"

definition loginPage :: login_page where
  "loginPage = \<lparr>idField = Some ''ada'', passwordInput = Some ''pw'',
                 loginButton = Some \<lparr>disabled = False, innerHTML = ''Sign In''\<rparr>\<rparr>"

text \<open>An answer of the backend with status 200 and a JSON content type.\<close>

definition jsonAnswer :: "string \<Rightarrow> response" where
  "jsonAnswer t = \<lparr>status = 200, statusText = ''OK'', hServer = None,
                    hBackend = Some ''EduAttend-Node'',
                    hContentType = Some ''application/json; charset=utf-8'', bodyText = t\<rparr>"

definition loginRuntime :: runtime where
  "loginRuntime = exampleRuntime
     [(''{\"token\":\"t1\",\"role\":\"student\"}'',
       JObj [(''token'', JStr ''t1''), (''role'', JStr ''student'')]),
      (''{\"token\":\"t2\",\"role\":\"faculty\"}'',
       JObj [(''token'', JStr ''t2''), (''role'', JStr ''faculty'')])]
     [(JObj [(''token'', JStr ''t2''), (''role'', JStr ''faculty'')],
       ''{\"token\":\"t2\",\"role\":\"faculty\"}'')]"

text \<open>
  Two HTML pages in place of JSON: a gateway's error page, labelled as JSON and carrying
  a backend header of the gateway's own, and a static host's fallback page, served with
  status 200 and no backend header.
\<close>

definition gatewayPage :: response where
  "gatewayPage = \<lparr>status = 502, statusText = ''Bad Gateway'', hServer = Some ''nginx'',
                   hBackend = Some ''edge-proxy'', hContentType = Some ''application/json'',
                   bodyText = ''<html><body>502 Bad Gateway</body></html>''\<rparr>"

definition fallbackPage :: response where
  "fallbackPage = \<lparr>status = 200, statusText = ''OK'', hServer = Some ''Netlify'',
                    hBackend = None, hContentType = Some ''text/html; charset=UTF-8'',
                    bodyText = ''<!DOCTYPE html><html><head></head></html>''\<rparr>"

text \<open>A dashboard page, and a student's session on the student dashboard.\<close>

definition dashboardPage :: dashboard_page where
  "dashboardPage = \<lparr>welcomeText = Some ''Dashboard'', welcomeSubtext = Some ''Welcome'',
       userProfileName = Some ''Name'', userProfileId = Some ''ID'',
       userAvatar = Some ''avatar.png''\<rparr>"

definition studentSession :: world where
  "studentSession = emptyWorld\<lparr>storage :=
      [''eduAttendToken'' \<mapsto> ''t1'',
       ''eduAttendUser'' \<mapsto> ''{\"token\":\"t1\",\"role\":\"student\"}'']\<rparr>"

definition studentDashboardUrl :: location where
  "studentDashboardUrl = \<lparr>hostname = ''edu.example.org'', port = [], protocol = ''https:'',
       pathname = ''/student-dashboard.html''\<rparr>"

text \<open>A history of 10 Present and 5 Absent records, its JSON text, and the pages to fill.\<close>

definition presentRecord :: json where
  "presentRecord = JObj [(''subject'', JStr ''CS101-A''), (''status'', JStr ''Present''),
                         (''date'', JStr ''2025-01-06'')]"

definition absentRecord :: json where
  "absentRecord = JObj [(''subject'', JStr ''CS101-A''), (''status'', JStr ''Absent''),
                        (''date'', JStr ''2025-01-07'')]"

definition exampleHistory :: "json list" where
  "exampleHistory = replicate 10 presentRecord @ replicate 5 absentRecord"

definition exampleHistoryText :: string where
  "exampleHistoryText = ''['' @ joinWith '',''
      (replicate 10 ''{\"subject\":\"CS101-A\",\"status\":\"Present\",\"date\":\"2025-01-06\"}''
       @ replicate 5 ''{\"subject\":\"CS101-A\",\"status\":\"Absent\",\"date\":\"2025-01-07\"}'')
      @ '']''"

definition historyRuntime :: runtime where
  "historyRuntime = exampleRuntime [(exampleHistoryText, JArr exampleHistory)] []"

definition emptyListRuntime :: runtime where
  "emptyListRuntime = exampleRuntime [(''[]'', JArr [])] []"

definition facultyPage :: faculty_page where
  "facultyPage = \<lparr>statHeadings = [''...'', ''...''],
                   tableBody = Some \<lparr>bodyHtml = ''<tr><td>Loading...</td></tr>'', appended = []\<rparr>\<rparr>"

definition studentPage :: student_page where
  "studentPage = \<lparr>statCards = replicate 4 \<lparr>background = [], cardText = ''0''\<rparr>,
                   attendancePct = None, performanceList = Some ''<p>Loading...</p>''\<rparr>"

text \<open>A history of 29 Present and 171 Absent records: 14.5 per cent, a tie.\<close>

definition tieHistory :: "json list" where
  "tieHistory = replicate 29 presentRecord @ replicate 171 absentRecord"

definition tieHistoryText :: string where
  "tieHistoryText = ''['' @ joinWith '',''
      (replicate 29 ''{\"subject\":\"CS101-A\",\"status\":\"Present\",\"date\":\"2025-01-06\"}''
       @ replicate 171 ''{\"subject\":\"CS101-A\",\"status\":\"Absent\",\"date\":\"2025-01-07\"}'')
      @ '']''"

definition tieRuntime :: runtime where
  "tieRuntime = exampleRuntime [(tieHistoryText, JArr tieHistory)] []"

section \<open>Facts about apiRequest\<close>

lemma apiRequest_world:
  "snd (apiRequest rt net API_URL w ep opts) =
     w\<lparr>sent := sent w @ [buildRequest API_URL w ep opts]\<rparr>"
  by (simp add: apiRequest_def Let_def split: sum.split)

lemma startsWith_nonempty: "startsWith s p \<Longrightarrow> p \<noteq> [] \<Longrightarrow> s \<noteq> []"
  by (auto simp add: startsWith_def)

lemma isHtml_nonempty:
  assumes "isHtml t"
  shows "t \<noteq> [] \<and> trim t \<noteq> []"
proof -
  from assms have "trim t \<noteq> []"
    unfolding isHtml_def by (auto dest: startsWith_nonempty)
  moreover have "trim [] = []"
    by (simp add: trim_def)
  ultimately show ?thesis by auto
qed

lemma diag_not_fetch:
  "aliveMessage \<noteq> ''Failed to fetch''" "interceptedMessage s \<noteq> ''Failed to fetch''"
  "notReachedMessage s \<noteq> ''Failed to fetch''" "respondedMessage u \<noteq> ''Failed to fetch''"
  by (simp_all add: aliveMessage_def interceptedMessage_def notReachedMessage_def
      respondedMessage_def)

lemma diag_nonempty:
  "notReachedMessage s \<noteq> []" "respondedMessage u \<noteq> []"
  by (simp_all add: notReachedMessage_def respondedMessage_def)

lemma readResponse_html:
  assumes "isHtml (bodyText r)"
  shows "(isJsonType (hContentType r) \<and> JSON_parse rt (bodyText r) = None \<longrightarrow>
            readResponse rt u r =
              Inl (if hBackend r = Some ''EduAttend-Node'' then aliveMessage
                   else interceptedMessage (hServer r)))
       \<and> (\<not> isJsonType (hContentType r) \<and> \<not> ok r \<longrightarrow>
            readResponse rt u r =
              Inl (if truthyStr (hBackend r) then respondedMessage u
                   else notReachedMessage (hServer r)))
       \<and> (\<not> isJsonType (hContentType r) \<and> ok r \<longrightarrow>
            readResponse rt u r =
              Inr (JObj [(''message'', JStr (if truthyStr (hBackend r) then respondedMessage u
                   else notReachedMessage (hServer r)))]))"
  using assms isHtml_nonempty [OF assms]
  by (simp add: readResponse_def Let_def orElse_def toStrV_def diag_nonempty)

lemma apiRequest_sent_irrelevant:
  "fst (apiRequest rt net API_URL (w\<lparr>sent := x\<rparr>) ep opts) =
     fst (apiRequest rt net API_URL w ep opts)"
  by (simp add: apiRequest_def buildRequest_def Let_def split: sum.split)

lemma trim_nonempty: "\<not> isSpace c \<Longrightarrow> trim (c # cs) \<noteq> []"
  by (auto simp add: trim_def dropWhile_eq_Nil_conv)

section \<open>Facts about the numbers\<close>

text \<open>
  \<open>toDouble\<close> does round to a nearest double: the exponent found brackets the number,
  the significand has 53 bits, and the result is within half a unit in the last place.
\<close>

lemma pow2_powi: "pow2 k = 2 powi k"
  by (simp add: pow2_def power_int_def power_one_over inverse_eq_divide)

lemma bitlen_rat_bounds:
  assumes "0 < a"
  shows "2 powi (bitlen a - 1) \<le> (of_int a :: rat)" and "(of_int a :: rat) < 2 powi (bitlen a)"
proof -
  from bitlen_bounds [OF assms] have 1: "2 ^ nat (bitlen a - 1) \<le> a" and 2: "a < 2 ^ nat (bitlen a)"
    by auto
  from assms have pos: "1 \<le> bitlen a"
    by (auto simp add: bitlen_alt_def)
  from 1 have "(of_int (2 ^ nat (bitlen a - 1)) :: rat) \<le> of_int a"
    by (simp only: of_int_le_iff)
  with pos show "2 powi (bitlen a - 1) \<le> (of_int a :: rat)"
    by (simp add: power_int_def)
  from 2 have "(of_int a :: rat) < of_int (2 ^ nat (bitlen a))"
    by (simp only: of_int_less_iff)
  with pos show "(of_int a :: rat) < 2 powi (bitlen a)"
    by (simp add: power_int_def)
qed

lemma exponentOf_bounds:
  assumes "0 < x"
  shows "pow2 (exponentOf x) \<le> x \<and> x < pow2 (exponentOf x + 1)"
proof -
  obtain a b where q: "quotient_of x = (a, b)"
    by (cases "quotient_of x")
  then have b: "0 < b" and x: "x = of_int a / of_int b"
    by (auto dest: quotient_of_denom_pos quotient_of_div)
  with assms have a: "0 < a"
    by (simp add: zero_less_divide_iff)
  define k where "k = bitlen a - bitlen b"
  have e: "exponentOf x = (if pow2 k \<le> x then k else k - 1)"
    by (simp add: exponentOf_def q k_def Let_def)
  have pa: "(0::rat) < 2 powi (bitlen a - 1)" and pb: "(0::rat) < 2 powi (bitlen b - 1)"
    and pb': "(0::rat) < 2 powi (bitlen b)"
    by simp_all
  have b': "(0::rat) < of_int b" using b by simp
  have "x < 2 powi (bitlen a) / of_int b"
    unfolding x using bitlen_rat_bounds(2) [OF a] b' by (rule divide_strict_right_mono)
  also have "\<dots> \<le> 2 powi (bitlen a) / 2 powi (bitlen b - 1)"
    using bitlen_rat_bounds(1) [OF b] pb b' by (intro divide_left_mono) simp_all
  also have "\<dots> = 2 powi (k + 1)"
    by (simp add: k_def power_int_diff [symmetric] algebra_simps)
  finally have upper: "x < 2 powi (k + 1)" .
  have "2 powi (k - 1) = 2 powi (bitlen a - 1) / (2 powi (bitlen b) :: rat)"
    by (simp add: k_def power_int_diff [symmetric] algebra_simps)
  also have "\<dots> < 2 powi (bitlen a - 1) / of_int b"
    using bitlen_rat_bounds(2) [OF b] pa b' by (intro divide_strict_left_mono) simp_all
  also have "\<dots> \<le> x"
    unfolding x using bitlen_rat_bounds(1) [OF a] b' by (intro divide_right_mono) simp_all
  finally have lower: "2 powi (k - 1) < x" .
  show ?thesis
    using upper lower by (auto simp add: e pow2_powi)
qed

lemma roundHalfEven_floor: "\<lfloor>x\<rfloor> \<le> roundHalfEven x \<and> roundHalfEven x \<le> \<lfloor>x\<rfloor> + 1"
  by (simp add: roundHalfEven_def Let_def)

lemma roundHalfEven_near: "\<bar>of_int (roundHalfEven x) - x\<bar> \<le> 1 / 2"
proof -
  have "of_int \<lfloor>x\<rfloor> \<le> x" "x < of_int \<lfloor>x\<rfloor> + 1"
    by linarith+
  then show ?thesis
    by (auto simp add: roundHalfEven_def Let_def abs_le_iff)
qed

lemma toDouble_nearest:
  assumes pos: "0 < x"
  defines "e \<equiv> exponentOf x - 52"
  defines "m \<equiv> roundHalfEven (x / pow2 e)"
  shows "toDouble x = of_int m * pow2 e \<and> 2 ^ 52 \<le> m \<and> m \<le> 2 ^ 53
         \<and> \<bar>toDouble x - x\<bar> \<le> pow2 e / 2"
proof -
  have pe: "0 < pow2 e"
    by (simp add: pow2_powi)
  have split: "pow2 (exponentOf x) = 2 ^ 52 * pow2 e" "pow2 (exponentOf x + 1) = 2 ^ 53 * pow2 e"
    by (simp_all add: e_def pow2_powi power_int_diff power_int_add)
  from exponentOf_bounds [OF pos] have "2 ^ 52 * pow2 e \<le> x" "x < 2 ^ 53 * pow2 e"
    by (simp_all add: split)
  with pe have y: "2 ^ 52 \<le> x / pow2 e" "x / pow2 e < 2 ^ 53"
    by (simp_all add: pos_le_divide_eq pos_divide_less_eq)
  have f1: "(2 ^ 52 :: int) \<le> \<lfloor>x / pow2 e\<rfloor>"
    using y(1) by (subst le_floor_iff) simp
  have f2: "\<lfloor>x / pow2 e\<rfloor> < (2 ^ 53 :: int)"
    using y(2) by (subst floor_less_iff) simp
  have m: "2 ^ 52 \<le> m" "m \<le> 2 ^ 53"
    using f1 f2 roundHalfEven_floor [of "x / pow2 e"] unfolding m_def by linarith+
  have t: "toDouble x = of_int m * pow2 e"
    using pos by (simp add: toDouble_def Let_def m_def e_def)
  have "of_int m * pow2 e - x = (of_int m - x / pow2 e) * pow2 e"
    using pe by (simp add: left_diff_distrib)
  then have "\<bar>toDouble x - x\<bar> = \<bar>of_int m - x / pow2 e\<bar> * \<bar>pow2 e\<bar>"
    by (simp only: t abs_mult)
  also have "\<dots> = \<bar>of_int m - x / pow2 e\<bar> * pow2 e"
    using pe by simp
  also have "\<dots> \<le> 1 / 2 * pow2 e"
    using roundHalfEven_near [of "x / pow2 e"] pe
    by (intro mult_right_mono) (simp_all add: m_def)
  finally show ?thesis
    using t m by simp
qed

text \<open>
  Hence the error of the quotient and of the product, and what it leaves of the rounding.
\<close>

lemma toDouble_relative:
  assumes pos: "0 < x"
  shows "0 < toDouble x \<and> \<bar>toDouble x - x\<bar> \<le> x / 2 ^ 53"
proof -
  define e where "e = exponentOf x - 52"
  define m where "m = roundHalfEven (x / pow2 e)"
  from toDouble_nearest [OF pos] have t: "toDouble x = of_int m * pow2 e"
    and m: "2 ^ 52 \<le> m" and err: "\<bar>toDouble x - x\<bar> \<le> pow2 e / 2"
    unfolding e_def m_def by blast+
  have pe: "0 < pow2 e"
    by (simp add: pow2_powi)
  have "pow2 (exponentOf x) = 2 ^ 52 * pow2 e"
    by (simp add: e_def pow2_powi power_int_diff)
  with exponentOf_bounds [OF pos] have "2 ^ 52 * pow2 e \<le> x"
    by simp
  then have "pow2 e / 2 \<le> x / 2 ^ 53"
    by simp
  with err have "\<bar>toDouble x - x\<bar> \<le> x / 2 ^ 53"
    by linarith
  moreover from m have "(0::rat) < of_int m"
    by simp
  with pe have "0 < toDouble x"
    by (simp add: t)
  ultimately show ?thesis by simp
qed

lemma percent_error:
  assumes n: "0 < n" and pn: "p \<le> n"
  shows "\<bar>dmul (ddiv (of_nat p) (of_nat n)) 100 - of_nat p / of_nat n * 100\<bar> \<le> 1 / 2 ^ 45"
proof (cases "p = 0")
  case True
  then show ?thesis
    by (simp add: dmul_def ddiv_def toDouble_def)
next
  case False
  define x :: rat where "x = of_nat p / of_nat n"
  define d where "d = toDouble x"
  from False n pn have x: "0 < x" "x \<le> 1"
    by (simp_all add: x_def)
  from toDouble_relative [OF x(1)] have d: "0 < d" "\<bar>d - x\<bar> \<le> x / 2 ^ 53"
    by (simp_all add: d_def)
  from d(1) have y: "0 < d * 100"
    by simp
  from toDouble_relative [OF y] have e2: "\<bar>toDouble (d * 100) - d * 100\<bar> \<le> d * 100 / 2 ^ 53"
    by simp
  from x(2) have "x / 2 ^ 53 \<le> 1 / 2 ^ 53"
    by (simp add: divide_right_mono)
  with d(2) have d1: "\<bar>d - x\<bar> \<le> 1 / 2 ^ 53"
    by linarith
  then have d2: "d \<le> 1 + 1 / 2 ^ 53"
    using x(2) by linarith
  then have "d * 100 / 2 ^ 53 \<le> (1 + 1 / 2 ^ 53) * 100 / 2 ^ 53"
    by (simp add: divide_right_mono)
  with e2 have e3: "\<bar>toDouble (d * 100) - d * 100\<bar> \<le> (1 + 1 / 2 ^ 53) * 100 / 2 ^ 53"
    by linarith
  from d1 have e4: "\<bar>d * 100 - x * 100\<bar> \<le> 100 / 2 ^ 53"
    by linarith
  have "\<bar>toDouble (d * 100) - x * 100\<bar> \<le> (1 + 1 / 2 ^ 53) * 100 / 2 ^ 53 + 100 / 2 ^ 53"
    using e3 e4 by linarith
  also have "\<dots> \<le> 1 / 2 ^ 45"
    by simp
  finally show ?thesis
    unfolding dmul_def ddiv_def x_def d_def .
qed

lemma floor_stable:
  fixes N D :: int and d eps :: rat
  assumes D: "0 < D" and close: "\<bar>d - of_int N / of_int D\<bar> \<le> eps" and eps: "eps < 1 / of_int D"
  shows "(N mod D \<noteq> 0 \<longrightarrow> \<lfloor>d\<rfloor> = N div D) \<and> (\<lfloor>d\<rfloor> = N div D \<or> \<lfloor>d\<rfloor> = N div D - 1)"
proof -
  define k where "k = N div D"
  define r where "r = N mod D"
  have N: "N = D * k + r" and r: "0 \<le> r" "r < D"
    using D by (simp_all add: k_def r_def)
  have D': "(0::rat) < of_int D" using D by simp
  have z: "of_int N / of_int D = (of_int k :: rat) + of_int r / of_int D"
    using D' by (simp add: N add_divide_distrib)
  have iD: "1 / (of_int D :: rat) \<le> 1"
    using D by (simp add: divide_le_eq)
  have r1: "(of_int r :: rat) / of_int D \<le> 1 - 1 / of_int D"
  proof -
    from r(2) have "r \<le> D - 1" by simp
    then have "(of_int r :: rat) \<le> of_int D - 1" by (metis of_int_1 of_int_diff of_int_le_iff)
    then have "(of_int r :: rat) / of_int D \<le> (of_int D - 1) / of_int D"
      using D' by (simp add: divide_right_mono)
    also have "\<dots> = 1 - 1 / of_int D"
      using D' by (simp add: diff_divide_distrib)
    finally show ?thesis .
  qed
  have r0: "(0::rat) \<le> of_int r / of_int D"
    using r(1) D' by simp
  have upper: "d < of_int k + 1"
    using close eps r1 z by linarith
  have low1: "of_int k - 1 \<le> d"
    using close eps iD r0 z by linarith
  have "r \<noteq> 0 \<Longrightarrow> of_int k \<le> d"
  proof -
    assume "r \<noteq> 0"
    with r(1) have "1 \<le> r" by simp
    then have "(1::rat) \<le> of_int r" by simp
    then have "1 / of_int D \<le> (of_int r :: rat) / of_int D"
      using D' by (simp add: divide_right_mono)
    with close eps z show "of_int k \<le> d" by linarith
  qed
  then have a: "r \<noteq> 0 \<longrightarrow> \<lfloor>d\<rfloor> = k"
    using upper by (auto intro: floor_unique)
  have b: "\<lfloor>d\<rfloor> = k \<or> \<lfloor>d\<rfloor> = k - 1"
  proof (cases "of_int k \<le> d")
    case True
    with upper have "\<lfloor>d\<rfloor> = k" by (auto intro: floor_unique)
    then show ?thesis ..
  next
    case False
    with low1 have "\<lfloor>d\<rfloor> = k - 1" by (intro floor_unique) simp_all
    then show ?thesis ..
  qed
  from a b show ?thesis
    by (simp add: k_def r_def)
qed

lemma percent_rounding:
  assumes n: "0 < n" and pn: "p \<le> n" and small: "n < 2 ^ 44"
  shows "((200 * p + n) mod (2 * n) \<noteq> 0 \<longrightarrow>
            mathRound (dmul (ddiv (of_nat p) (of_nat n)) 100) = int ((200 * p + n) div (2 * n)))
       \<and> (mathRound (dmul (ddiv (of_nat p) (of_nat n)) 100) = int ((200 * p + n) div (2 * n))
          \<or> mathRound (dmul (ddiv (of_nat p) (of_nat n)) 100) = int ((200 * p + n) div (2 * n)) - 1)"
proof -
  define v where "v = dmul (ddiv (of_nat p) (of_nat n)) 100"
  define N where "N = int (200 * p + n)"
  define D where "D = int (2 * n)"
  have D: "0 < D" using n by (simp add: D_def)
  have n': "(0::rat) < of_nat n" using n by simp
  have z: "of_int N / of_int D = (of_nat p / of_nat n * 100 + 1 / 2 :: rat)"
    using n' by (simp add: N_def D_def add_divide_distrib)
  have close: "\<bar>(v + 1 / 2) - of_int N / of_int D\<bar> \<le> 1 / 2 ^ 45"
    using percent_error [OF n pn] by (simp add: z v_def)
  have "(of_int D :: rat) < 2 ^ 45"
  proof -
    from small have "2 * n < 2 ^ 45" by simp
    then have "D < 2 ^ 45" by (simp add: D_def)
    then have "(of_int D :: rat) < of_int (2 ^ 45)" by (simp only: of_int_less_iff)
    then show ?thesis by simp
  qed
  with D have eps: "(1 / 2 ^ 45 :: rat) < 1 / of_int D"
    by (simp add: frac_less2)
  from floor_stable [OF D close eps]
  have "(N mod D \<noteq> 0 \<longrightarrow> mathRound v = N div D) \<and> (mathRound v = N div D \<or> mathRound v = N div D - 1)"
    by (simp add: mathRound_def)
  moreover have "N div D = int ((200 * p + n) div (2 * n))" "N mod D = int ((200 * p + n) mod (2 * n))"
    by (simp_all add: N_def D_def zdiv_int zmod_int)
  ultimately show ?thesis
    by (simp add: v_def)
qed

section \<open>Base URL resolution\<close>

text \<open>
  C5, as stated, fails: a stored override that is the empty string is present in storage
  and is not returned. On a page served from port 3000 of a public host the result is
  the relative path.
\<close>

theorem getBaseUrl_empty_override_counterexample:
  "[''eduAttendBackendUrl'' \<mapsto> ''''] ''eduAttendBackendUrl'' = Some ''''
   \<and> getBaseUrl [''eduAttendBackendUrl'' \<mapsto> '''']
        \<lparr>hostname = ''edu.example.org'', port = ''3000'', protocol = ''https:'',
         pathname = ''/index.html''\<rparr> = ''/api''
   \<and> ''/api'' \<noteq> ''''"
  by (simp add: getBaseUrl_def truthyStr_def isLocal_def isFile_def startsWith_def)

text \<open>
  C5, amended: a stored override that is not the empty string is returned; otherwise
  (no override, or an empty one) port 5000 gives the relative path \<open>/api\<close>; otherwise a
  local host name (localhost, 127.0.0.1, or one starting with 192.168., 10. or 172.) or
  the file: protocol gives \<open>http://localhost:5000/api\<close>; otherwise \<open>/api\<close>.
\<close>

theorem getBaseUrl_priority:
  "getBaseUrl st l =
     (case st ''eduAttendBackendUrl'' of
        Some u \<Rightarrow>
          if u \<noteq> [] then u
          else if port l = ''5000'' then ''/api''
          else if hostname l = ''localhost'' \<or> hostname l = ''127.0.0.1''
                  \<or> startsWith (hostname l) ''192.168.'' \<or> startsWith (hostname l) ''10.''
                  \<or> startsWith (hostname l) ''172.'' \<or> protocol l = ''file:''
               then ''http://localhost:5000/api''
          else ''/api''
      | None \<Rightarrow>
          if port l = ''5000'' then ''/api''
          else if hostname l = ''localhost'' \<or> hostname l = ''127.0.0.1''
                  \<or> startsWith (hostname l) ''192.168.'' \<or> startsWith (hostname l) ''10.''
                  \<or> startsWith (hostname l) ''172.'' \<or> protocol l = ''file:''
               then ''http://localhost:5000/api''
          else ''/api'')"
  by (simp add: getBaseUrl_def truthyStr_def isLocal_def isFile_def split: option.split)

section \<open>Logout\<close>

text \<open>
  C8: logout removes the two session keys eduAttendToken and eduAttendUser from local
  storage and asks for index.html; every other key, the eduAttendBackendUrl override
  among them, keeps its value, and nothing else of the browser state changes.
\<close>

theorem logout_frame:
  "storage (logout w) k =
     (if k = ''eduAttendToken'' \<or> k = ''eduAttendUser'' then None else storage w k)
   \<and> storage (logout w) ''eduAttendBackendUrl'' = storage w ''eduAttendBackendUrl''
   \<and> href (logout w) = Some ''index.html''
   \<and> alerts (logout w) = alerts w \<and> sent (logout w) = sent w"
  by (simp add: logout_def Let_def)

section \<open>Marking attendance\<close>

text \<open>
  C9: every call of markAttendance sends exactly one request, a POST to /attendance/mark
  whose body is the serialisation of an object with the given studentId, the given status
  and the subject \<open>CS101-A\<close>, whatever the arguments, the page and the browser state are.
\<close>

theorem markAttendance_body:
  "sent (snd (markAttendance rt net API_URL studentId stat btn w)) =
     sent w @ [\<lparr>url = requestUrl API_URL ''/attendance/mark'', httpMethod = Some ''POST'',
                body = Some (JSON_stringify rt (JObj
                  [(''studentId'', JStr studentId), (''status'', JStr stat),
                   (''subject'', JStr ''CS101-A'')])),
                headers = requestHeaders (storage w) (markOptions rt studentId stat)\<rparr>]"
proof -
  obtain r w1 where a:
    "apiRequest rt net API_URL w ''/attendance/mark'' (markOptions rt studentId stat) = (r, w1)"
    by (cases "apiRequest rt net API_URL w ''/attendance/mark'' (markOptions rt studentId stat)")
  from a have w1: "w1 = w\<lparr>sent := sent w @
      [buildRequest API_URL w ''/attendance/mark'' (markOptions rt studentId stat)]\<rparr>"
    using apiRequest_world [of rt net API_URL w "''/attendance/mark''" "markOptions rt studentId stat"]
    by simp
  have "sent (snd (markAttendance rt net API_URL studentId stat btn w)) = sent w1"
    by (simp add: markAttendance_def a Let_def split: sum.split clicked.split)
  also have "\<dots> = sent w @
      [buildRequest API_URL w ''/attendance/mark'' (markOptions rt studentId stat)]"
    by (simp add: w1)
  finally show ?thesis
    by (simp add: buildRequest_def markOptions_def)
qed

text \<open>
  C10: when the request of markAttendance throws, the clicked button and the other
  elements of its row keep their class lists, the failure is shown as one alert, and
  neither the storage nor the navigation target changes.
\<close>

theorem markAttendance_failure:
  assumes "fst (apiRequest rt net API_URL w ''/attendance/mark'' (markOptions rt studentId stat))
            = Inl e"
  shows "fst (markAttendance rt net API_URL studentId stat btn w) = btn
       \<and> alerts (snd (markAttendance rt net API_URL studentId stat btn w)) =
           alerts w @ [''Failed to mark attendance: '' @ e]
       \<and> storage (snd (markAttendance rt net API_URL studentId stat btn w)) = storage w
       \<and> href (snd (markAttendance rt net API_URL studentId stat btn w)) = href w"
proof -
  obtain r w1 where a:
    "apiRequest rt net API_URL w ''/attendance/mark'' (markOptions rt studentId stat) = (r, w1)"
    by (cases "apiRequest rt net API_URL w ''/attendance/mark'' (markOptions rt studentId stat)")
  from a have w1: "w1 = w\<lparr>sent := sent w @
      [buildRequest API_URL w ''/attendance/mark'' (markOptions rt studentId stat)]\<rparr>"
    using apiRequest_world [of rt net API_URL w "''/attendance/mark''" "markOptions rt studentId stat"]
    by simp
  from a assms have r: "r = Inl e" by simp
  show ?thesis
    by (simp add: markAttendance_def a w1 r Let_def)
qed

text \<open>
  An instance: the network is down, the Present button of a row whose Absent button is
  active is clicked. The row is as before and the alert names the failure.
\<close>

theorem markAttendance_failure_witness:
  "fst (apiRequest (exampleRuntime [] []) (\<lambda>q. Inl ''Failed to fetch'') ''/api''
              \<lparr>storage = Map.empty, href = None, alerts = [], sent = []\<rparr>
              ''/attendance/mark'' (markOptions (exampleRuntime [] []) ''s1'' ''Present''))
          = Inl ''Could not connect to the backend server at /api/attendance/mark''
   \<and> fst (markAttendance (exampleRuntime [] []) (\<lambda>q. Inl ''Failed to fetch'') ''/api''
        ''s1'' ''Present''
        (InRow [\<lparr>classList = [''action-btn'', ''btn-p'']\<rparr>,
                \<lparr>classList = [''action-btn'', ''btn-a'', ''active'']\<rparr>] 0)
        \<lparr>storage = Map.empty, href = None, alerts = [], sent = []\<rparr>)
     = InRow [\<lparr>classList = [''action-btn'', ''btn-p'']\<rparr>,
              \<lparr>classList = [''action-btn'', ''btn-a'', ''active'']\<rparr>] 0
   \<and> alerts (snd (markAttendance (exampleRuntime [] []) (\<lambda>q. Inl ''Failed to fetch'') ''/api''
        ''s1'' ''Present''
        (InRow [\<lparr>classList = [''action-btn'', ''btn-p'']\<rparr>,
                \<lparr>classList = [''action-btn'', ''btn-a'', ''active'']\<rparr>] 0)
        \<lparr>storage = Map.empty, href = None, alerts = [], sent = []\<rparr>))
     = [''Failed to mark attendance: Could not connect to the backend server at /api/attendance/mark'']"
proof -
  have h: "fst (apiRequest (exampleRuntime [] []) (\<lambda>q. Inl ''Failed to fetch'') ''/api''
              \<lparr>storage = Map.empty, href = None, alerts = [], sent = []\<rparr>
              ''/attendance/mark'' (markOptions (exampleRuntime [] []) ''s1'' ''Present''))
          = Inl ''Could not connect to the backend server at /api/attendance/mark''"
    by (simp add: apiRequest_def requestUrl_def startsWith_def Let_def)
  show ?thesis
    using h markAttendance_failure [OF h, of
        "InRow [\<lparr>classList = [''action-btn'', ''btn-p'']\<rparr>,
                \<lparr>classList = [''action-btn'', ''btn-a'', ''active'']\<rparr>] 0"]
    by simp
qed

section \<open>Logging in\<close>

lemma loginSubmit_refused:
  assumes pg: "idField pg = Some username" "passwordInput pg = Some password"
      "loginButton pg = Some btn"
    and resp: "fst (apiRequest rt net API_URL w ''/auth/login''
                 (loginOptions rt username password role)) = Inr data"
    and wrong: "getProp rt (Some data) ''role'' \<noteq> Inr (Some (JStr role))"
  shows "\<exists>pg' w'. loginSubmit role busy refusal dashboard idle rt net API_URL pg w = Inr (pg', w')
          \<and> storage w' = storage w \<and> href w' = href w
          \<and> alerts w' = alerts w @
               [case getProp rt (Some data) ''role'' of Inl e \<Rightarrow> e | Inr v \<Rightarrow> refusal]"
proof -
  obtain r w1 where a:
    "apiRequest rt net API_URL w ''/auth/login'' (loginOptions rt username password role) = (r, w1)"
    by (cases "apiRequest rt net API_URL w ''/auth/login'' (loginOptions rt username password role)")
  from a have w1: "w1 = w\<lparr>sent := sent w @
      [buildRequest API_URL w ''/auth/login'' (loginOptions rt username password role)]\<rparr>"
    using apiRequest_world [of rt net API_URL w "''/auth/login''"
        "loginOptions rt username password role"]
    by simp
  from a resp have r: "r = Inr data" by simp
  show ?thesis
    using wrong
    by (simp add: loginSubmit_def pg a r w1 Let_def split: sum.split)
qed

lemma loginSubmit_accepted:
  assumes pg: "idField pg = Some username" "passwordInput pg = Some password"
      "loginButton pg = Some btn"
    and resp: "fst (apiRequest rt net API_URL w ''/auth/login''
                 (loginOptions rt username password role)) = Inr (JObj kvs)"
    and right: "map_of kvs ''role'' = Some (JStr role)"
  shows "\<exists>pg' w'. loginSubmit role busy refusal dashboard idle rt net API_URL pg w = Inr (pg', w')
          \<and> storage w' = (storage w)(''eduAttendToken'' \<mapsto> toStrV rt (map_of kvs ''token''),
                                       ''eduAttendUser'' \<mapsto> JSON_stringify rt (JObj kvs))
          \<and> (\<forall>t. map_of kvs ''token'' = Some (JStr t) \<longrightarrow> storage w' ''eduAttendToken'' = Some t)
          \<and> href w' = Some dashboard \<and> alerts w' = alerts w"
proof -
  obtain r w1 where a:
    "apiRequest rt net API_URL w ''/auth/login'' (loginOptions rt username password role) = (r, w1)"
    by (cases "apiRequest rt net API_URL w ''/auth/login'' (loginOptions rt username password role)")
  from a have w1: "w1 = w\<lparr>sent := sent w @
      [buildRequest API_URL w ''/auth/login'' (loginOptions rt username password role)]\<rparr>"
    using apiRequest_world [of rt net API_URL w "''/auth/login''"
        "loginOptions rt username password role"]
    by simp
  from a resp have r: "r = Inr (JObj kvs)" by simp
  show ?thesis
    by (simp add: loginSubmit_def pg a r w1 right toStrV_def Let_def)
qed

text \<open>
  C1: on the faculty portal (resp. the student portal), when the login request returns
  data whose role is not the string \<open>faculty\<close> (resp. \<open>student\<close>), the handler leaves
  the storage as it was (neither eduAttendToken nor eduAttendUser is written), asks for
  no navigation, and shows one alert: the portal's refusal, or the engine's message when
  the data has no properties to read.
\<close>

theorem login_wrong_role:
  assumes portal: "(submit, role, refusal) \<in>
        {(facultySubmit, ''faculty'', ''This portal is for faculty only.''),
         (studentSubmit, ''student'', ''This portal is for students only.'')}"
    and pg: "idField pg = Some username" "passwordInput pg = Some password"
      "loginButton pg = Some btn"
    and resp: "fst (apiRequest rt net API_URL w ''/auth/login''
                 (loginOptions rt username password role)) = Inr data"
    and wrong: "getProp rt (Some data) ''role'' \<noteq> Inr (Some (JStr role))"
  shows "\<exists>pg' w'. submit rt net API_URL pg w = Inr (pg', w')
          \<and> storage w' = storage w \<and> href w' = href w
          \<and> alerts w' = alerts w @
               [case getProp rt (Some data) ''role'' of Inl e \<Rightarrow> e | Inr v \<Rightarrow> refusal]"
proof -
  from portal consider
      "submit = facultySubmit" "role = ''faculty''"
      "refusal = ''This portal is for faculty only.''"
    | "submit = studentSubmit" "role = ''student''"
      "refusal = ''This portal is for students only.''"
    by auto
  then show ?thesis
  proof cases
    case 1
    with loginSubmit_refused [OF pg resp wrong] show ?thesis
      unfolding facultySubmit_def by blast
  next
    case 2
    with loginSubmit_refused [OF pg resp wrong] show ?thesis
      unfolding studentSubmit_def by blast
  qed
qed

text \<open>An instance: the backend answers a faculty login with a student's session.\<close>

theorem login_wrong_role_witness:
  "\<exists>pg' w'. facultySubmit loginRuntime
        (\<lambda>q. Inr (jsonAnswer ''{\"token\":\"t1\",\"role\":\"student\"}''))
        ''/api'' loginPage emptyWorld = Inr (pg', w')
     \<and> storage w' = storage emptyWorld \<and> href w' = href emptyWorld
     \<and> alerts w' = alerts emptyWorld @ [''This portal is for faculty only.'']"
proof -
  have resp: "fst (apiRequest loginRuntime
                (\<lambda>q. Inr (jsonAnswer ''{\"token\":\"t1\",\"role\":\"student\"}''))
                ''/api'' emptyWorld ''/auth/login''
                (loginOptions loginRuntime ''ada'' ''pw'' ''faculty''))
           = Inr (JObj [(''token'', JStr ''t1''), (''role'', JStr ''student'')])"
    by (simp add: apiRequest_def readResponse_def jsonAnswer_def loginRuntime_def
        exampleRuntime_def isJsonType_def truthyStr_def startsWith_def trim_def isSpace_def ok_def
        Let_def)
  have wrong: "getProp loginRuntime
                 (Some (JObj [(''token'', JStr ''t1''), (''role'', JStr ''student'')])) ''role''
               \<noteq> Inr (Some (JStr ''faculty''))"
    by simp
  show ?thesis
    using login_wrong_role [of facultySubmit "''faculty''" "''This portal is for faculty only.''"
        loginPage "''ada''" "''pw''" "\<lparr>disabled = False, innerHTML = ''Sign In''\<rparr>"
        loginRuntime _ "''/api''" emptyWorld, OF _ _ _ _ resp wrong]
    by (simp add: loginPage_def)
qed

text \<open>
  C2: on the faculty portal (resp. the student portal), when the login request returns
  an object whose role is \<open>faculty\<close> (resp. \<open>student\<close>), eduAttendToken is set to the
  object's token (as a string), eduAttendUser to the serialised object, the navigation
  goes to dashboard.html (resp. student-dashboard.html) and no alert is shown.
\<close>

theorem login_success:
  assumes portal: "(submit, role, dashboard) \<in>
        {(facultySubmit, ''faculty'', ''dashboard.html''),
         (studentSubmit, ''student'', ''student-dashboard.html'')}"
    and pg: "idField pg = Some username" "passwordInput pg = Some password"
      "loginButton pg = Some btn"
    and resp: "fst (apiRequest rt net API_URL w ''/auth/login''
                 (loginOptions rt username password role)) = Inr (JObj kvs)"
    and right: "map_of kvs ''role'' = Some (JStr role)"
  shows "\<exists>pg' w'. submit rt net API_URL pg w = Inr (pg', w')
          \<and> storage w' = (storage w)(''eduAttendToken'' \<mapsto> toStrV rt (map_of kvs ''token''),
                                       ''eduAttendUser'' \<mapsto> JSON_stringify rt (JObj kvs))
          \<and> (\<forall>t. map_of kvs ''token'' = Some (JStr t) \<longrightarrow> storage w' ''eduAttendToken'' = Some t)
          \<and> href w' = Some dashboard \<and> alerts w' = alerts w"
proof -
  from portal consider
      "submit = facultySubmit" "role = ''faculty''" "dashboard = ''dashboard.html''"
    | "submit = studentSubmit" "role = ''student''" "dashboard = ''student-dashboard.html''"
    by auto
  then show ?thesis
  proof cases
    case 1
    with loginSubmit_accepted [OF pg resp right] show ?thesis
      unfolding facultySubmit_def by blast
  next
    case 2
    with loginSubmit_accepted [OF pg resp right] show ?thesis
      unfolding studentSubmit_def by blast
  qed
qed

text \<open>An instance: a faculty login that the backend accepts.\<close>

theorem login_success_witness:
  "\<exists>pg' w'. facultySubmit loginRuntime
        (\<lambda>q. Inr (jsonAnswer ''{\"token\":\"t2\",\"role\":\"faculty\"}''))
        ''/api'' loginPage emptyWorld = Inr (pg', w')
     \<and> storage w' = [''eduAttendToken'' \<mapsto> ''t2'',
                      ''eduAttendUser'' \<mapsto> ''{\"token\":\"t2\",\"role\":\"faculty\"}'']
     \<and> storage w' ''eduAttendToken'' = Some ''t2''
     \<and> href w' = Some ''dashboard.html'' \<and> alerts w' = []"
proof -
  have resp: "fst (apiRequest loginRuntime
                (\<lambda>q. Inr (jsonAnswer ''{\"token\":\"t2\",\"role\":\"faculty\"}''))
                ''/api'' emptyWorld ''/auth/login''
                (loginOptions loginRuntime ''ada'' ''pw'' ''faculty''))
           = Inr (JObj [(''token'', JStr ''t2''), (''role'', JStr ''faculty'')])"
    by (simp add: apiRequest_def readResponse_def jsonAnswer_def loginRuntime_def
        exampleRuntime_def isJsonType_def truthyStr_def startsWith_def trim_def isSpace_def ok_def
        Let_def)
  have pr: "JSON_stringify loginRuntime (JObj [(''token'', JStr ''t2''), (''role'', JStr ''faculty'')])
            = ''{\"token\":\"t2\",\"role\":\"faculty\"}''"
    by (simp add: loginRuntime_def exampleRuntime_def)
  show ?thesis
    using login_success [of facultySubmit "''faculty''" "''dashboard.html''"
        loginPage "''ada''" "''pw''" "\<lparr>disabled = False, innerHTML = ''Sign In''\<rparr>"
        loginRuntime _ "''/api''" emptyWorld, OF _ _ _ _ resp]
    by (simp add: loginPage_def emptyWorld_def pr toStrV_def)
qed

section \<open>HTML in place of JSON\<close>

text \<open>
  C4, as stated, fails twice. The gateway's page comes with a backend header, and the
  message thrown says that another server took the request, not that the backend was
  reached: under a JSON content type the test is whether the header is
  \<open>EduAttend-Node\<close>, not whether it is there. The static host's page comes with status
  200, and no error is thrown at all: the diagnostic is returned as the data's message.
\<close>

theorem html_classification_counterexample:
  "isHtml (bodyText gatewayPage) \<and> hBackend gatewayPage = Some ''edge-proxy''
   \<and> fst (apiRequest (exampleRuntime [] []) (\<lambda>q. Inr gatewayPage) ''/api'' emptyWorld
            ''/users/students'' noOptions)
       = Inl ''The request was intercepted by a different server (nginx). This usually means your deployment's /api route is not correctly pointing to the Node.js backend.''
   \<and> isHtml (bodyText fallbackPage) \<and> hBackend fallbackPage = None
   \<and> fst (apiRequest (exampleRuntime [] []) (\<lambda>q. Inr fallbackPage) ''/api'' emptyWorld
            ''/users/students'' noOptions)
       = Inr (JObj [(''message'', JStr ''CRITICAL: The backend server was NOT reached. Request was handled by: Netlify. Ensure your deployment configuration routes /api to the Node server.'')])"
  by (simp add: apiRequest_def readResponse_def gatewayPage_def fallbackPage_def
      exampleRuntime_def isJsonType_def truthyStr_def isHtml_def startsWith_def trim_def
      isSpace_def ok_def interceptedMessage_def notReachedMessage_def orUnknown_def Let_def)

text \<open>
  C4, amended: for a response whose body, trimmed, starts with \<open><!DOCTYPE html>\<close> or
  \<open><html\<close>: under a JSON content type, where the body does not parse, apiRequest throws
  the message that the backend is alive but returned an HTML page when the
  X-Backend-Server header is exactly \<open>EduAttend-Node\<close>, and the message that another
  server intercepted the request otherwise; under any other content type the diagnostic
  says that the backend was not reached when the header is missing or empty, and that
  the backend responded with an HTML page otherwise, and it is thrown when the status is
  outside 200..299 and returned as the message of the data when it is inside.
\<close>

theorem html_classification:
  assumes "net (buildRequest API_URL w ep opts) = Inr r" and "isHtml (bodyText r)"
  shows "(isJsonType (hContentType r) \<and> JSON_parse rt (bodyText r) = None \<longrightarrow>
            fst (apiRequest rt net API_URL w ep opts) =
              Inl (if hBackend r = Some ''EduAttend-Node'' then aliveMessage
                   else interceptedMessage (hServer r)))
       \<and> (\<not> isJsonType (hContentType r) \<and> \<not> ok r \<longrightarrow>
            fst (apiRequest rt net API_URL w ep opts) =
              Inl (if truthyStr (hBackend r) then respondedMessage (requestUrl API_URL ep)
                   else notReachedMessage (hServer r)))
       \<and> (\<not> isJsonType (hContentType r) \<and> ok r \<longrightarrow>
            fst (apiRequest rt net API_URL w ep opts) =
              Inr (JObj [(''message'', JStr (if truthyStr (hBackend r)
                   then respondedMessage (requestUrl API_URL ep)
                   else notReachedMessage (hServer r)))]))"
  using readResponse_html [OF assms(2), of rt "requestUrl API_URL ep"] assms(1)
  by (simp add: apiRequest_def Let_def diag_not_fetch)

text \<open>Instances: the two pages above.\<close>

theorem html_classification_witness:
  "fst (apiRequest (exampleRuntime [] []) (\<lambda>q. Inr gatewayPage) ''/api'' emptyWorld
         ''/users/students'' noOptions) = Inl (interceptedMessage (Some ''nginx''))
   \<and> fst (apiRequest (exampleRuntime [] []) (\<lambda>q. Inr fallbackPage) ''/api'' emptyWorld
         ''/users/students'' noOptions)
       = Inr (JObj [(''message'', JStr (notReachedMessage (Some ''Netlify'')))])"
proof -
  have h1: "isHtml (bodyText gatewayPage)" and h2: "isHtml (bodyText fallbackPage)"
    by (simp_all add: gatewayPage_def fallbackPage_def isHtml_def startsWith_def trim_def
        isSpace_def)
  have j: "isJsonType (hContentType gatewayPage)" "\<not> isJsonType (hContentType fallbackPage)"
    "ok fallbackPage" "JSON_parse (exampleRuntime [] []) (bodyText gatewayPage) = None"
    by (simp_all add: gatewayPage_def fallbackPage_def isJsonType_def truthyStr_def
        startsWith_def ok_def exampleRuntime_def)
  show ?thesis
    using html_classification [of "\<lambda>q. Inr gatewayPage" "''/api''" emptyWorld
        "''/users/students''" noOptions gatewayPage "exampleRuntime [] []", OF refl h1]
      html_classification [of "\<lambda>q. Inr fallbackPage" "''/api''" emptyWorld
        "''/users/students''" noOptions fallbackPage "exampleRuntime [] []", OF refl h2]
      j
    by (simp add: gatewayPage_def fallbackPage_def truthyStr_def)
qed

section \<open>Opening a dashboard\<close>

text \<open>Every path that contains \<open>student-dashboard.html\<close> contains \<open>dashboard.html\<close>.\<close>

lemma startsWith_append_includes: "startsWith s (a @ b) \<Longrightarrow> includesStr s b"
proof (induction a arbitrary: s)
  case Nil
  then show ?case by (cases s) (auto simp add: startsWith_def)
next
  case (Cons x a)
  then obtain s' where s: "s = x # s'" and "startsWith s' (a @ b)"
    by (cases s) (auto simp add: startsWith_def)
  with Cons.IH show ?case by simp
qed

lemma includes_student_dashboard:
  "includesStr p ''student-dashboard.html'' \<Longrightarrow> includesStr p ''dashboard.html''"
proof (induction p)
  case Nil
  then show ?case by simp
next
  case (Cons c cs)
  from Cons.prems have "startsWith (c # cs) (''student-'' @ ''dashboard.html'') \<or>
      includesStr cs ''student-dashboard.html''"
    by simp
  then show ?case
  proof
    assume "startsWith (c # cs) (''student-'' @ ''dashboard.html'')"
    then show ?thesis by (rule startsWith_append_includes)
  next
    assume "includesStr cs ''student-dashboard.html''"
    with Cons.IH show ?thesis by simp
  qed
qed

text \<open>
  The faculty half of C6 holds: on a path that contains \<open>dashboard.html\<close>, a stored value
  that parses to anything but an object of role \<open>faculty\<close> (an absent value parses to
  null) sends the browser to the faculty login, and nothing is rendered or loaded.
\<close>

lemma faculty_dashboard_guard:
  assumes "includesStr (pathname l) ''dashboard.html''"
    and "storedUser rt (storage w) = Some user"
    and "getProp rt (Some user) ''role'' \<noteq> Inr (Some (JStr ''faculty''))"
  shows "domContentLoaded rt l pg w = Inr (pg, w\<lparr>href := Some ''faculty-login.html''\<rparr>, [])"
  using assms
  by (cases user) (auto simp add: domContentLoaded_def facultyDashboardInit_def Let_def)

text \<open>
  The student half does not: the faculty block runs on the student dashboard too, so
  that the student block is reached under a faculty session only, where it redirects.
  On no path that contains \<open>student-dashboard.html\<close> is the attendance of a student loaded.
\<close>

lemma student_dashboard_never_loads:
  assumes "includesStr (pathname l) ''student-dashboard.html''"
    and "domContentLoaded rt l pg w = Inr (pg', w', started)"
  shows "LoadStudentAttendance \<notin> set started"
  using assms(2) includes_student_dashboard [OF assms(1)] assms(1)
  by (auto simp add: domContentLoaded_def facultyDashboardInit_def studentDashboardInit_def
      Let_def split: option.splits sum.splits if_splits)

text \<open>
  C6 at a student's session on student-dashboard.html: the claim has the page stay, the
  code sends the student to the faculty login.
\<close>

theorem student_dashboard_redirects_student:
  "domContentLoaded loginRuntime studentDashboardUrl dashboardPage studentSession
     = Inr (dashboardPage, studentSession\<lparr>href := Some ''faculty-login.html''\<rparr>, [])"
  by (simp add: domContentLoaded_def facultyDashboardInit_def storedUser_def
      studentDashboardUrl_def studentSession_def emptyWorld_def loginRuntime_def
      exampleRuntime_def startsWith_def Let_def)

section \<open>The attendance percentage\<close>

lemma attendanceNumbers_ok:
  assumes "JNull \<notin> set h"
  shows "attendanceNumbers rt h =
     Inr (length h, length (filter (isPresentRecord rt) h),
          length h - length (filter (isPresentRecord rt) h),
          if 0 < length h
          then mathRound (dmul (ddiv (of_nat (length (filter (isPresentRecord rt) h)))
                 (of_nat (length h))) 100)
          else 0)"
  using assms by (simp add: attendanceNumbers_def Let_def)

lemma updateStats_pct:
  assumes "4 \<le> length (statCards pg)"
  shows "attendancePct (updateStats pg (t, p, m, pct)) =
           Some ([CHR 0x27] @ showInt pct @ ''%'' @ [CHR 0x27])"
    and "background (statCards (updateStats pg (t, p, m, pct)) ! 0) =
           ''conic-gradient(var(--primary-blue) '' @ showInt pct @ ''%, #f1f5f9 0)''"
proof -
  from assms have l: "statCards pg \<noteq> []" by auto
  show "attendancePct (updateStats pg (t, p, m, pct)) =
          Some ([CHR 0x27] @ showInt pct @ ''%'' @ [CHR 0x27])"
    using assms by (simp add: updateStats_def Let_def)
  show "background (statCards (updateStats pg (t, p, m, pct)) ! 0) =
           ''conic-gradient(var(--primary-blue) '' @ showInt pct @ ''%, #f1f5f9 0)''"
    using assms l by (simp add: updateStats_def Let_def)
qed

lemma loadStudentAttendance_stats:
  assumes resp: "fst (apiRequest rt net API_URL w ''/attendance/my-history'' noOptions)
                  = Inr (JArr h)"
    and nn: "attendanceNumbers rt h = Inr numbers"
  shows "statCards (fst (loadStudentAttendance rt net API_URL pg w)) =
           statCards (updateStats pg numbers)
       \<and> attendancePct (fst (loadStudentAttendance rt net API_URL pg w)) =
           attendancePct (updateStats pg numbers)"
proof -
  obtain r w1 where a:
    "apiRequest rt net API_URL w ''/attendance/my-history'' noOptions = (r, w1)"
    by (cases "apiRequest rt net API_URL w ''/attendance/my-history'' noOptions")
  with resp have r: "r = Inr (JArr h)" by simp
  show ?thesis
    by (simp add: loadStudentAttendance_def a r nn Let_def split: option.split sum.split)
qed

text \<open>
  Ten of fifteen: the quotient is the double next to 2/3, the product the double next to
  66.67, and the result 67.
\<close>

lemma sixty_seven: "mathRound (dmul (ddiv (of_nat 10) (of_nat 15)) 100) = 67"
  by code_simp

text \<open>
  The arithmetic is that of doubles. 29 of 200 is 14.5 per cent; the product computed is
  the double below 14.5, so the result is 14 where exact arithmetic would give 15.
\<close>

lemma percentage_in_doubles:
  "mathRound (dmul (ddiv (of_nat 29) (of_nat 200)) 100) = 14
   \<and> mathRound (of_nat 29 / of_nat 200 * 100) = 15"
  by code_simp

text \<open>
  C3, as stated in arithmetic, fails: of 200 records 29 are Present, which is 14.5 per
  cent and rounds to 15; the product computed is the double below 14.5, and the page
  shows 14.
\<close>

theorem attendance_percentage_counterexample:
  "attendanceNumbers tieRuntime tieHistory = Inr (200, 29, 171, 14)
   \<and> attendancePct (fst (loadStudentAttendance tieRuntime
         (\<lambda>q. Inr (jsonAnswer tieHistoryText)) ''/api'' studentPage emptyWorld))
       = Some ([CHR 0x27] @ ''14%'' @ [CHR 0x27])
   \<and> \<lfloor>(29 :: rat) / 200 * 100 + 1 / 2\<rfloor> = 15"
proof -
  have nn: "JNull \<notin> set tieHistory"
    by (simp add: tieHistory_def presentRecord_def absentRecord_def)
  have p: "length (filter (isPresentRecord tieRuntime) tieHistory) = 29"
    by (simp add: tieHistory_def presentRecord_def absentRecord_def isPresentRecord_def)
  have l: "length tieHistory = 200"
    by (simp add: tieHistory_def)
  have n: "attendanceNumbers tieRuntime tieHistory = Inr (200, 29, 171, 14)"
    using attendanceNumbers_ok [OF nn, of tieRuntime] percentage_in_doubles
    by (simp add: p l)
  have t: "trim tieHistoryText \<noteq> []"
    unfolding tieHistoryText_def by (simp add: trim_nonempty isSpace_def)
  have resp: "fst (apiRequest tieRuntime (\<lambda>q. Inr (jsonAnswer tieHistoryText)) ''/api''
      emptyWorld ''/attendance/my-history'' noOptions) = Inr (JArr tieHistory)"
    using t
    by (simp add: apiRequest_def readResponse_def jsonAnswer_def tieRuntime_def
        exampleRuntime_def isJsonType_def truthyStr_def startsWith_def ok_def Let_def)
  have cards: "4 \<le> length (statCards studentPage)"
    by (simp add: studentPage_def)
  have shown: "attendancePct (fst (loadStudentAttendance tieRuntime
         (\<lambda>q. Inr (jsonAnswer tieHistoryText)) ''/api'' studentPage emptyWorld))
       = Some ([CHR 0x27] @ ''14%'' @ [CHR 0x27])"
    using loadStudentAttendance_stats [OF resp n, of studentPage] updateStats_pct(1) [OF cards]
    by (simp add: showInt_def digit_def)
  have "\<lfloor>(29 :: rat) / 200 * 100 + 1 / 2\<rfloor> = 15"
    by simp
  with n shown show ?thesis by simp
qed

text \<open>
  C3, amended: for a history that is an array of records (none of them null, at least
  one and fewer than \<open>2^44\<close>) answered to \<open>/attendance/my-history\<close>, with \<open>p\<close> the number of
  records whose status is exactly the string \<open>Present\<close>: the numbers computed are the
  length, \<open>p\<close>, their difference and a percentage, computed in the double arithmetic of
  the language, which is \<open>100 * p / length\<close> rounded to the nearest integer whenever that
  value is not exactly halfway between two integers, and one of the two integers next to
  it when it is; for 10 Present among 15 records it is 67. On a page with at least four
  stat cards this percentage is what the page shows.
\<close>

theorem attendance_percentage:
  assumes resp: "fst (apiRequest rt net API_URL w ''/attendance/my-history'' noOptions)
                  = Inr (JArr h)"
    and nn: "JNull \<notin> set h"
    and len: "0 < length h" "length h < 2 ^ 44"
    and cards: "4 \<le> length (statCards pg)"
    and p: "p = length (filter (\<lambda>a. getProp rt (Some a) ''status'' =
                                    Inr (Some (JStr ''Present''))) h)"
  shows "\<exists>pct. attendanceNumbers rt h = Inr (length h, p, length h - p, pct)
          \<and> ((200 * p + length h) mod (2 * length h) \<noteq> 0 \<longrightarrow>
                pct = int ((200 * p + length h) div (2 * length h)))
          \<and> (pct = int ((200 * p + length h) div (2 * length h))
              \<or> pct = int ((200 * p + length h) div (2 * length h)) - 1)
          \<and> (length h = 15 \<and> p = 10 \<longrightarrow> pct = 67)
          \<and> attendancePct (fst (loadStudentAttendance rt net API_URL pg w)) =
              Some ([CHR 0x27] @ showInt pct @ ''%'' @ [CHR 0x27])
          \<and> background (statCards (fst (loadStudentAttendance rt net API_URL pg w)) ! 0) =
              ''conic-gradient(var(--primary-blue) '' @ showInt pct @ ''%, #f1f5f9 0)''"
proof -
  define pct where "pct = mathRound (dmul (ddiv (of_nat p) (of_nat (length h))) 100)"
  have p': "length (filter (isPresentRecord rt) h) = p"
    unfolding p isPresentRecord_def ..
  have pn: "p \<le> length h"
    unfolding p by (rule length_filter_le)
  have n: "attendanceNumbers rt h = Inr (length h, p, length h - p, pct)"
    using attendanceNumbers_ok [OF nn, of rt] len(1) by (simp add: p' pct_def)
  from percent_rounding [OF len(1) pn len(2)]
  have r1: "(200 * p + length h) mod (2 * length h) \<noteq> 0 \<longrightarrow>
                pct = int ((200 * p + length h) div (2 * length h))"
    and r2: "pct = int ((200 * p + length h) div (2 * length h))
              \<or> pct = int ((200 * p + length h) div (2 * length h)) - 1"
    unfolding pct_def by blast+
  have r3: "length h = 15 \<and> p = 10 \<longrightarrow> pct = 67"
    using r1 by auto
  have s1: "attendancePct (fst (loadStudentAttendance rt net API_URL pg w)) =
              Some ([CHR 0x27] @ showInt pct @ ''%'' @ [CHR 0x27])"
    using loadStudentAttendance_stats [OF resp n, of pg] updateStats_pct(1) [OF cards] by simp
  have s2: "background (statCards (fst (loadStudentAttendance rt net API_URL pg w)) ! 0) =
              ''conic-gradient(var(--primary-blue) '' @ showInt pct @ ''%, #f1f5f9 0)''"
    using loadStudentAttendance_stats [OF resp n, of pg] updateStats_pct(2) [OF cards] by simp
  from n r1 r2 r3 s1 s2 show ?thesis by blast
qed

text \<open>An instance: the history of 10 Present and 5 Absent records shows 67%.\<close>

theorem attendance_percentage_witness:
  "attendancePct (fst (loadStudentAttendance historyRuntime
       (\<lambda>q. Inr (jsonAnswer exampleHistoryText)) ''/api'' studentPage emptyWorld))
     = Some ([CHR 0x27] @ ''67%'' @ [CHR 0x27])
   \<and> background (statCards (fst (loadStudentAttendance historyRuntime
       (\<lambda>q. Inr (jsonAnswer exampleHistoryText)) ''/api'' studentPage emptyWorld)) ! 0)
     = ''conic-gradient(var(--primary-blue) 67%, #f1f5f9 0)''"
proof -
  have t: "trim exampleHistoryText \<noteq> []"
    unfolding exampleHistoryText_def by (simp add: trim_nonempty isSpace_def)
  have resp: "fst (apiRequest historyRuntime (\<lambda>q. Inr (jsonAnswer exampleHistoryText)) ''/api''
      emptyWorld ''/attendance/my-history'' noOptions) = Inr (JArr exampleHistory)"
    using t
    by (simp add: apiRequest_def readResponse_def jsonAnswer_def historyRuntime_def
        exampleRuntime_def isJsonType_def truthyStr_def startsWith_def ok_def Let_def)
  have nn: "JNull \<notin> set exampleHistory"
    by (simp add: exampleHistory_def presentRecord_def absentRecord_def)
  have cards: "4 \<le> length (statCards studentPage)"
    by (simp add: studentPage_def)
  have p: "(10::nat) = length (filter (\<lambda>a. getProp historyRuntime (Some a) ''status'' =
      Inr (Some (JStr ''Present''))) exampleHistory)"
    by (simp add: exampleHistory_def presentRecord_def absentRecord_def)
  have l: "length exampleHistory = 15"
    by (simp add: exampleHistory_def)
  have len: "0 < length exampleHistory" "length exampleHistory < 2 ^ 44"
    by (simp_all add: l)
  show ?thesis
    using attendance_percentage [OF resp nn len cards p] l
    by (auto simp add: showInt_def digit_def)
qed

section \<open>An empty history\<close>

text \<open>
  C7: when the history answered to the student dashboard is the empty array and the page
  has a \<open>.performance-list\<close>, the list shows its heading and the paragraph
  \<open>No attendance records found.\<close>; when the history answered to the faculty dashboard
  is the empty array (the list of students having been answered before it) and the page
  has a \<open>table tbody\<close>, the table body is the one row \<open>No recent attendance recorded.\<close>.
\<close>

theorem empty_history_placeholder:
  "(fst (apiRequest rt net API_URL w ''/attendance/my-history'' noOptions) = Inr (JArr [])
      \<and> performanceList spg = Some old
     \<longrightarrow> performanceList (fst (loadStudentAttendance rt net API_URL spg w)) =
          Some (''<h3 style=\"margin-bottom: 1.5rem; color: #1e293b;\">Recent Attendance Log</h3>''
                @ ''<p style=\"color: #64748b;\">No attendance records found.</p>''))
   \<and> (fst (apiRequest rt net API_URL w ''/users/students'' noOptions) = Inr students
      \<and> students \<noteq> JNull
      \<and> fst (apiRequest rt net API_URL w ''/attendance/all'' noOptions) = Inr (JArr [])
      \<and> tableBody fpg = Some tb
     \<longrightarrow> tableBody (fst (loadDashboardStats rt net API_URL fpg w)) =
          Some \<lparr>bodyHtml = ''<tr><td colspan=\"4\" style=\"text-align: center;\">No recent attendance recorded.</td></tr>'',
                appended = []\<rparr>)"
proof (intro conjI impI)
  assume a: "fst (apiRequest rt net API_URL w ''/attendance/my-history'' noOptions) = Inr (JArr [])
      \<and> performanceList spg = Some old"
  obtain r w1 where b:
    "apiRequest rt net API_URL w ''/attendance/my-history'' noOptions = (r, w1)"
    by (cases "apiRequest rt net API_URL w ''/attendance/my-history'' noOptions")
  with a have r: "r = Inr (JArr [])" by simp
  from a show "performanceList (fst (loadStudentAttendance rt net API_URL spg w)) =
          Some (''<h3 style=\"margin-bottom: 1.5rem; color: #1e293b;\">Recent Attendance Log</h3>''
                @ ''<p style=\"color: #64748b;\">No attendance records found.</p>'')"
    by (simp add: loadStudentAttendance_def b r attendanceNumbers_def updateStats_def
        attendanceLog_def Let_def)
next
  assume a: "fst (apiRequest rt net API_URL w ''/users/students'' noOptions) = Inr students
      \<and> students \<noteq> JNull
      \<and> fst (apiRequest rt net API_URL w ''/attendance/all'' noOptions) = Inr (JArr [])
      \<and> tableBody fpg = Some tb"
  obtain r1 w1 where b: "apiRequest rt net API_URL w ''/users/students'' noOptions = (r1, w1)"
    by (cases "apiRequest rt net API_URL w ''/users/students'' noOptions")
  with a have r1: "r1 = Inr students" by simp
  from b have w1: "w1 = w\<lparr>sent := sent w @
      [buildRequest API_URL w ''/users/students'' noOptions]\<rparr>"
    using apiRequest_world [of rt net API_URL w "''/users/students''" noOptions] by simp
  obtain r2 w2 where c: "apiRequest rt net API_URL w1 ''/attendance/all'' noOptions = (r2, w2)"
    by (cases "apiRequest rt net API_URL w1 ''/attendance/all'' noOptions")
  have "fst (apiRequest rt net API_URL w1 ''/attendance/all'' noOptions) = Inr (JArr [])"
    unfolding w1 using a by (simp add: apiRequest_sent_irrelevant)
  with c have r2: "r2 = Inr (JArr [])" by simp
  from a have len: "\<exists>n. getProp rt (Some students) ''length'' = Inr n"
    by (cases students) simp_all
  then obtain n where n: "getProp rt (Some students) ''length'' = Inr n" ..
  from a show "tableBody (fst (loadDashboardStats rt net API_URL fpg w)) =
          Some \<lparr>bodyHtml = ''<tr><td colspan=\"4\" style=\"text-align: center;\">No recent attendance recorded.</td></tr>'',
                appended = []\<rparr>"
    by (simp add: loadDashboardStats_def b r1 c r2 n fillTable_def Let_def)
qed

text \<open>An instance: the backend answers every request with the empty array.\<close>

theorem empty_history_placeholder_witness:
  "performanceList (fst (loadStudentAttendance emptyListRuntime (\<lambda>q. Inr (jsonAnswer ''[]''))
       ''/api'' studentPage emptyWorld)) =
     Some ''<h3 style=\"margin-bottom: 1.5rem; color: #1e293b;\">Recent Attendance Log</h3><p style=\"color: #64748b;\">No attendance records found.</p>''
   \<and> tableBody (fst (loadDashboardStats emptyListRuntime (\<lambda>q. Inr (jsonAnswer ''[]''))
       ''/api'' facultyPage emptyWorld)) =
     Some \<lparr>bodyHtml = ''<tr><td colspan=\"4\" style=\"text-align: center;\">No recent attendance recorded.</td></tr>'',
           appended = []\<rparr>"
proof -
  have resp: "fst (apiRequest emptyListRuntime (\<lambda>q. Inr (jsonAnswer ''[]'')) ''/api''
      emptyWorld ep noOptions) = Inr (JArr [])" for ep
    by (simp add: apiRequest_def readResponse_def jsonAnswer_def emptyListRuntime_def
        exampleRuntime_def isJsonType_def truthyStr_def startsWith_def ok_def trim_def
        isSpace_def Let_def)
  show ?thesis
    using empty_history_placeholder [of emptyListRuntime "\<lambda>q. Inr (jsonAnswer ''[]'')" "''/api''"
        emptyWorld studentPage "''<p>Loading...</p>''" "JArr []" facultyPage
        "\<lparr>bodyHtml = ''<tr><td>Loading...</td></tr>'', appended = []\<rparr>"] resp
    by (simp add: studentPage_def facultyPage_def)
qed

end
